theory Spec2Isabelle
  imports Main "HOL-Library.Word"
begin

unbundle bit_operations_syntax


section \<open>Block model of the range-series file (rs.c)\<close>

text \<open>
  A node of the linked list: \<open>struct node { fourcc key; uint32_t size; unsigned char *data;
  struct node *next; }\<close>. The list itself is a HOL list of nodes (the \<open>next\<close> pointers);
  \<open>node_data\<close> holds the bytes the \<open>data\<close> pointer refers to, in host memory order.
\<close>

type_synonym byte = "8 word"
type_synonym fourcc = "32 word"

record node =
  node_key :: fourcc
  node_size :: "32 word"
  node_data :: "byte list"

definition KEY_AQFT :: fourcc where "KEY_AQFT = 0x41514654"
definition KEY_HEAD :: fourcc where "KEY_HEAD = 0x48454144"
definition KEY_sign :: fourcc where "KEY_sign = 0x7369676e"
definition KEY_mcda :: fourcc where "KEY_mcda = 0x6d636461"
definition KEY_dbrf :: fourcc where "KEY_dbrf = 0x64627266"
definition KEY_cnst :: fourcc where "KEY_cnst = 0x636e7374"
definition KEY_hasi :: fourcc where "KEY_hasi = 0x68617369"
definition KEY_swep :: fourcc where "KEY_swep = 0x73776570"
definition KEY_fbin :: fourcc where "KEY_fbin = 0x6662696e"
definition KEY_BODY :: fourcc where "KEY_BODY = 0x424f4459"
definition KEY_rtag :: fourcc where "KEY_rtag = 0x72746167"
definition KEY_gps1 :: fourcc where "KEY_gps1 = 0x67707331"
definition KEY_indx :: fourcc where "KEY_indx = 0x696e6478"
definition KEY_scal :: fourcc where "KEY_scal = 0x7363616c"
definition KEY_afft :: fourcc where "KEY_afft = 0x61666674"
definition KEY_ifft :: fourcc where "KEY_ifft = 0x69666674"
definition KEY_END :: fourcc where "KEY_END = 0x454e4420"

text \<open>\<open>sizeof(struct block_header)\<close>: a packed fourcc and a uint32.\<close>

definition header_size :: "32 word" where "header_size = 8"

subsection \<open>Size reconciliation: \<open>calculate_head_size\<close>, \<open>calculate_body_size\<close>,
  \<open>set_block_size\<close>, \<open>fixup_sizes\<close>\<close>

text \<open>
  The loop of \<open>calculate_body_size\<close>, with its two locals \<open>in_body\<close> and \<open>size\<close>.
  The three tests of the loop body run in the source's order. The addition is the
  32-bit addition of the source (\<open>uint32_t size\<close>).
\<close>

fun body_loop :: "bool \<Rightarrow> 32 word \<Rightarrow> node list \<Rightarrow> 32 word" where
  "body_loop in_body sz [] = sz"
| "body_loop in_body sz (n # list) =
     (let in_body1 = (if node_key n = KEY_END then False else in_body);
          sz1 = (if in_body1 then sz + (node_size n + header_size) else sz);
          in_body2 = (if node_key n = KEY_BODY then True else in_body1)
      in body_loop in_body2 sz1 list)"

definition calculate_body_size :: "node list \<Rightarrow> 32 word" where
  "calculate_body_size list = body_loop False 0 list"

fun head_loop :: "bool \<Rightarrow> 32 word \<Rightarrow> node list \<Rightarrow> 32 word" where
  "head_loop in_head sz [] = sz"
| "head_loop in_head sz (n # list) =
     (let in_head1 = (if node_key n = KEY_END then False else in_head);
          in_head2 = (if node_key n = KEY_BODY then False else in_head1);
          sz1 = (if in_head2 then sz + (node_size n + header_size) else sz);
          in_head3 = (if node_key n = KEY_HEAD then True else in_head2)
      in head_loop in_head3 sz1 list)"

definition calculate_head_size :: "node list \<Rightarrow> 32 word" where
  "calculate_head_size list = head_loop False 0 list"

text \<open>
  \<open>set_block_size\<close> writes the size of the first node with the given key and
  returns 0, or returns 1 when no node has the key. The list is returned updated.
\<close>

fun set_block_size :: "node list \<Rightarrow> fourcc \<Rightarrow> 32 word \<Rightarrow> int \<times> node list" where
  "set_block_size [] k sz = (1, [])"
| "set_block_size (n # list) k sz =
     (if node_key n = k then (0, n\<lparr>node_size := sz\<rparr> # list)
      else (case set_block_size list k sz of (r, list') \<Rightarrow> (r, n # list')))"

definition fixup_sizes :: "node list \<Rightarrow> int \<times> node list" where
  "fixup_sizes list =
     (let head_size = calculate_head_size list in
      if head_size = 0 then (1, list) else
      let body_size = calculate_body_size list in
      if body_size = 0 then (1, list) else
      let aqft_size = head_size + header_size + body_size + header_size in
      case set_block_size list KEY_AQFT aqft_size of (r1, l1) \<Rightarrow>
      if r1 \<noteq> 0 then (1, l1) else
      case set_block_size l1 KEY_HEAD head_size of (r2, l2) \<Rightarrow>
      if r2 \<noteq> 0 then (1, l2) else
      case set_block_size l2 KEY_BODY body_size of (r3, l3) \<Rightarrow>
      if r3 \<noteq> 0 then (1, l3) else (0, l3))"



subsection \<open>Byte order: \<open>endian_fixup\<close>, \<open>swapcopy\<close>\<close>

text \<open>
  \<open>swapcopy\<close> reverses an object of 2, 4 or 8 bytes and leaves any other size alone
  (the \<open>switch\<close> has no default). \<open>endian_fixup\<close> swaps when the global flag
  \<open>Global_flag_little_endian\<close> is set; the flag is the parameter \<open>le\<close> of every function
  that reads it.
\<close>

definition swapcopy :: "byte list \<Rightarrow> byte list" where
  "swapcopy source =
     (if length source = 2 \<or> length source = 4 \<or> length source = 8 then rev source else source)"

definition endian_fixup :: "bool \<Rightarrow> byte list \<Rightarrow> byte list" where
  "endian_fixup le original = (if le then swapcopy original else original)"

text \<open>The value of a 4-byte (8-byte) object in host memory, read by the host.\<close>

definition host_u32 :: "bool \<Rightarrow> byte list \<Rightarrow> 32 word" where
  "host_u32 le bs = (if le then word_rcat (rev bs) else word_rcat bs)"

definition host_u64 :: "bool \<Rightarrow> byte list \<Rightarrow> 64 word" where
  "host_u64 le bs = (if le then word_rcat (rev bs) else word_rcat bs)"

text \<open>The bytes of an integer in host memory.\<close>

definition be_bytes32 :: "32 word \<Rightarrow> byte list" where
  "be_bytes32 w = [ucast (drop_bit 24 w), ucast (drop_bit 16 w), ucast (drop_bit 8 w), ucast w]"

definition be_bytes64 :: "64 word \<Rightarrow> byte list" where
  "be_bytes64 w = [ucast (drop_bit 56 w), ucast (drop_bit 48 w), ucast (drop_bit 40 w),
     ucast (drop_bit 32 w), ucast (drop_bit 24 w), ucast (drop_bit 16 w), ucast (drop_bit 8 w),
     ucast w]"

definition host_bytes32 :: "bool \<Rightarrow> 32 word \<Rightarrow> byte list" where
  "host_bytes32 le w = (if le then rev (be_bytes32 w) else be_bytes32 w)"

definition host_bytes64 :: "bool \<Rightarrow> 64 word \<Rightarrow> byte list" where
  "host_bytes64 le w = (if le then rev (be_bytes64 w) else be_bytes64 w)"

text \<open>
  Endian fixup of consecutive packed fields of the given widths at the start of a data
  block; the bytes after the last field stay as they are.
\<close>

fun fixup_fields :: "bool \<Rightarrow> nat list \<Rightarrow> byte list \<Rightarrow> byte list" where
  "fixup_fields le [] bs = bs"
| "fixup_fields le (w # ws) bs = endian_fixup le (take w bs) @ fixup_fields le ws (drop w bs)"

subsection \<open>The registry: \<open>Global_function_dictionary\<close>, \<open>find_block_functions\<close>\<close>

text \<open>
  An entry of the dictionary is a \<open>struct block_functions\<close> of four function pointers.
  The seventeen entries are the constructors of \<open>block_functions\<close>; the four functions of
  an entry are selected by the dispatch functions \<open>fixup_data\<close>, \<open>make_node\<close>,
  \<open>dump_block\<close> and \<open>gen_block\<close> below.
\<close>

datatype block_functions =
  F_aqft | F_head | F_sign | F_mcda | F_dbrf | F_cnst | F_hasi | F_swep | F_fbin
  | F_body | F_rtag | F_gps1 | F_indx | F_scal | F_afft | F_ifft | F_end

definition Global_function_dictionary :: "(fourcc \<times> block_functions) list" where
  "Global_function_dictionary =
     [(KEY_AQFT, F_aqft), (KEY_HEAD, F_head), (KEY_sign, F_sign), (KEY_mcda, F_mcda),
      (KEY_dbrf, F_dbrf), (KEY_cnst, F_cnst), (KEY_hasi, F_hasi), (KEY_swep, F_swep),
      (KEY_fbin, F_fbin), (KEY_BODY, F_body), (KEY_rtag, F_rtag), (KEY_gps1, F_gps1),
      (KEY_indx, F_indx), (KEY_scal, F_scal), (KEY_afft, F_afft), (KEY_ifft, F_ifft),
      (KEY_END, F_end)]"

text \<open>The messages written to \<open>stderr\<close>, one constructor per \<open>fprintf(stderr, ...)\<close>
  format of the source, with the values it prints.\<close>

datatype diag =
    Bad_key_zero
  | Cannot_locate_functions fourcc
  | Cannot_fixup_block fourcc
  | Error_fixing_block fourcc
  | Block_is_truncated fourcc
  | Block_size_truncated fourcc "32 word" "64 word"
  | Bad_header_key fourcc
  | Cannot_dump_block fourcc
  | Error_dumping_block fourcc
  | Cannot_handle_BINFORMAT fourcc
  | Cannot_handle_BINTYPE fourcc
  | Cannot_gen_block fourcc
  | Error_in_block fourcc nat
  | Cannot_write_block fourcc
  | Cannot_find_parameter string
  | Error_counting_lines fourcc
  | Bad_number_of_lines int fourcc
  | Error_reading_block fourcc
  | Failed_to_read_iqdata nat string

definition find_block_functions :: "fourcc \<Rightarrow> block_functions option \<times> diag list" where
  "find_block_functions k =
     (if k = 0 then (None, [Bad_key_zero])
      else (case map_of Global_function_dictionary k of
              Some f \<Rightarrow> (Some f, [])
            | None \<Rightarrow> (None, [Cannot_locate_functions k])))"

definition superblock :: "fourcc \<Rightarrow> bool" where
  "superblock k = (k = KEY_AQFT \<or> k = KEY_HEAD \<or> k = KEY_BODY \<or> k = KEY_END)"

subsection \<open>Endian fixup of a decoded data block: \<open>fixup_data_xxxx\<close>, \<open>fixup_block\<close>\<close>

text \<open>
  The packed structs: their sizes, and the widths of the leading fields that
  \<open>fixup_data_xxxx\<close> swaps, in the order of the source. \<open>fixup_data_hasi\<close> only checks
  the size. The two sample blocks swap \<open>size / 8\<close> pairs of 4-byte floats.
\<close>

definition sizeof_block :: "block_functions \<Rightarrow> nat" where
  "sizeof_block f = (case f of
      F_sign \<Rightarrow> 4 + 4 + 4 + 4 + 64 + 64 + 64
    | F_mcda \<Rightarrow> 4 | F_dbrf \<Rightarrow> 8 | F_cnst \<Rightarrow> 16 | F_hasi \<Rightarrow> 4
    | F_swep \<Rightarrow> 4 + 8 + 8 + 8 + 4 | F_fbin \<Rightarrow> 8 | F_rtag \<Rightarrow> 4
    | F_gps1 \<Rightarrow> 8 + 8 + 8 + 4 | F_indx \<Rightarrow> 4 | F_scal \<Rightarrow> 16
    | F_afft \<Rightarrow> 8 | F_ifft \<Rightarrow> 8
    | _ \<Rightarrow> 0)"

definition fixup_widths :: "block_functions \<Rightarrow> 32 word \<Rightarrow> nat list" where
  "fixup_widths f sz = (case f of
      F_sign \<Rightarrow> [4, 4, 4, 4]
    | F_mcda \<Rightarrow> [4] | F_dbrf \<Rightarrow> [8] | F_cnst \<Rightarrow> [4, 4, 4, 4]
    | F_swep \<Rightarrow> [4, 8, 8, 8, 4] | F_fbin \<Rightarrow> [4, 4] | F_rtag \<Rightarrow> [4]
    | F_gps1 \<Rightarrow> [8, 8, 8, 4] | F_indx \<Rightarrow> [4] | F_scal \<Rightarrow> [8, 8]
    | F_afft \<Rightarrow> replicate (2 * (unat sz div 8)) 4
    | F_ifft \<Rightarrow> replicate (2 * (unat sz div 8)) 4
    | _ \<Rightarrow> [])"

text \<open>
  A read or write outside the file buffer is undefined behaviour in C; the model makes it
  the outcome \<open>Out_of_bounds\<close>. \<open>Uninitialized_read\<close> is the read of the
  never-written \<open>dummy_root.next\<close> in \<open>parse_file\<close>.
\<close>

datatype fault = Out_of_bounds | Uninitialized_read

text \<open>
  \<open>fixup_data f sz avail\<close>: the data block has \<open>sz\<close> bytes by its header and starts the
  bytes \<open>avail\<close> that are left in the buffer. Returns the error code and the block's
  bytes after the fixup.
\<close>

definition fixup_data ::
  "bool \<Rightarrow> block_functions \<Rightarrow> fourcc \<Rightarrow> 32 word \<Rightarrow> byte list \<Rightarrow> fault + (int \<times> byte list \<times> diag list)" where
  "fixup_data le f k sz avail =
     (if unat sz < sizeof_block f then Inr (1, take (unat sz) avail, [Block_is_truncated k])
      else if length avail < sum_list (fixup_widths f sz) then Inl Out_of_bounds
      else Inr (0, take (unat sz) (fixup_fields le (fixup_widths f sz) avail), []))"

definition fixup_block ::
  "bool \<Rightarrow> fourcc \<Rightarrow> 32 word \<Rightarrow> byte list \<Rightarrow> fault + (int \<times> byte list \<times> diag list)" where
  "fixup_block le k sz avail =
     (case find_block_functions k of
        (None, d) \<Rightarrow> Inr (1, take (unat sz) avail, d @ [Cannot_fixup_block k])
      | (Some f, d) \<Rightarrow>
          (case fixup_data le f k sz avail of
             Inl flt \<Rightarrow> Inl flt
           | Inr (err, dat, d') \<Rightarrow>
               if err \<noteq> 0 then Inr (1, dat, d @ d' @ [Error_fixing_block k])
               else Inr (0, dat, d @ d')))"

subsection \<open>The binary decoder: \<open>parse_block\<close>, \<open>parse_file\<close>\<close>

text \<open>
  \<open>parse_block le mem p len\<close>: \<open>mem\<close> is the whole file buffer, \<open>p\<close> the offset of the
  \<open>buffer\<close> pointer in it, and \<open>len\<close> the \<open>unsigned long length\<close> of the source, a 64-bit
  counter whose subtraction wraps. One unfolding is one iteration of the \<open>while\<close> loop:
  the header is read (8 bytes at \<open>p\<close>), \<open>length\<close> is reduced by 8, the size is clamped to
  what \<open>length\<close> says is left, a superblock is parsed recursively, any other block is
  fixed up (the error of \<open>fixup_block\<close> is ignored, as in the source), and the loop goes on
  after the data block. The result is the list of the new nodes in link order.

  The data of a leaf node are the bytes its pointer refers to after the in-place fixup.
  The payload of a superblock is never read through its node, and the node carries no
  bytes.
\<close>

function parse_block ::
  "bool \<Rightarrow> byte list \<Rightarrow> nat \<Rightarrow> 64 word \<Rightarrow> fault + (node list \<times> diag list)" where
  "parse_block le mem p len =
     (if len = 0 then Inr ([], [])
      else if length mem < p + 8 then Inl Out_of_bounds
      else
        let k = host_u32 le (endian_fixup le (take 4 (drop p mem)));
            size0 = host_u32 le (endian_fixup le (take 4 (drop (p + 4) mem)));
            len1 = len - 8;
            p1 = p + 8;
            sz = (if ucast size0 > len1 then ucast len1 else size0);
            d1 = (if ucast size0 > len1 then [Block_size_truncated k size0 len1] else [])
        in
          if superblock k then
            (case parse_block le mem p1 (ucast sz) of
               Inl flt \<Rightarrow> Inl flt
             | Inr (sub, d2) \<Rightarrow>
                 (case parse_block le mem (p1 + unat sz) (len1 - ucast sz) of
                    Inl flt \<Rightarrow> Inl flt
                  | Inr (rest, d3) \<Rightarrow>
                      Inr (\<lparr>node_key = k, node_size = sz, node_data = []\<rparr> # sub @ rest,
                           d1 @ d2 @ d3)))
          else
            (case fixup_block le k sz (drop p1 mem) of
               Inl flt \<Rightarrow> Inl flt
             | Inr (err, dat, d2) \<Rightarrow>
                 (case parse_block le mem (p1 + unat sz) (len1 - ucast sz) of
                    Inl flt \<Rightarrow> Inl flt
                  | Inr (rest, d3) \<Rightarrow>
                      Inr (\<lparr>node_key = k, node_size = sz, node_data = dat\<rparr> # rest,
                           d1 @ d2 @ d3))))"
  by pat_completeness auto
termination
  by (relation "measure (\<lambda>(le, mem, p, len). length mem - p)") auto

declare parse_block.simps [simp del]

definition parse_file :: "bool \<Rightarrow> byte list \<Rightarrow> fault + (node list \<times> diag list)" where
  "parse_file le buffer =
     (if buffer = [] then Inl Uninitialized_read
      else parse_block le buffer 0 (of_nat (length buffer)))"

definition check_header :: "bool \<Rightarrow> byte list \<Rightarrow> int \<times> diag list" where
  "check_header le buffer =
     (let k = host_u32 le (endian_fixup le (take 4 buffer))
      in if k \<noteq> KEY_AQFT then (1, [Bad_header_key k]) else (0, []))"

definition read_binary_file :: "bool \<Rightarrow> byte list \<Rightarrow> int \<times> diag list" where
  "read_binary_file le buffer =
     (if length buffer > 8 then check_header le buffer else (0, []))"

section \<open>Text streams and the C library\<close>

text \<open>
  A text stream (\<open>FILE *\<close> opened for reading) is the list of the characters from the
  current position to the end of the file. \<open>ftell\<close> followed by \<open>fseek\<close> to the same
  position gives the stream back as it was.
\<close>

definition NUL :: char where "NUL = CHR 0x00"
definition NL :: char where "NL = CHR 0x0A"

definition SIZE_LINE :: nat where "SIZE_LINE = 256"

text \<open>
  \<open>fgets(line, n, fd)\<close> reads at most \<open>n - 1\<close> characters, stops after a newline, and
  returns \<open>NULL\<close> when no character is left. \<open>fgets_chars\<close> gives the characters read
  and the rest of the stream.
\<close>

fun fgets_chars :: "nat \<Rightarrow> string \<Rightarrow> string \<times> string" where
  "fgets_chars n [] = ([], [])"
| "fgets_chars n (c # fd) =
     (if n = 0 then ([], c # fd)
      else if c = NL then ([c], fd)
      else (case fgets_chars (n - 1) fd of (cs, fd') \<Rightarrow> (c # cs, fd')))"

definition fgets :: "nat \<Rightarrow> string \<Rightarrow> (string \<times> string) option" where
  "fgets n fd = (if fd = [] then None else Some (fgets_chars (n - 1) fd))"

text \<open>
  The C string in a line buffer after \<open>fgets\<close> has stored the characters \<open>cs\<close> and
  \<open>chomp\<close> has replaced the first newline by the terminator: the characters before the
  first newline or NUL.
\<close>

definition chomp :: "string \<Rightarrow> string" where
  "chomp cs = takeWhile (\<lambda>c. c \<noteq> NUL \<and> c \<noteq> NL) cs"

text \<open>The C string at the start of a character array: up to the first NUL.\<close>

definition cstring :: "string \<Rightarrow> string" where
  "cstring cs = takeWhile (\<lambda>c. c \<noteq> NUL) cs"

definition isspace :: "char \<Rightarrow> bool" where
  "isspace c = (c = CHR 0x20 \<or> c = CHR 0x09 \<or> c = CHR 0x0A \<or> c = CHR 0x0B
                \<or> c = CHR 0x0C \<or> c = CHR 0x0D)"

subsection \<open>Integer output: \<open>%u\<close>, \<open>%lu\<close>, \<open>%d\<close>, \<open>%x\<close>\<close>

definition digit_char :: "nat \<Rightarrow> char" where
  "digit_char d = ''0123456789abcdef'' ! d"

function digits_of :: "nat \<Rightarrow> nat \<Rightarrow> string" where
  "digits_of base n =
     (if base < 2 \<or> n < base then [digit_char n]
      else digits_of base (n div base) @ [digit_char (n mod base)])"
  by pat_completeness auto
termination
  by (relation "measure (\<lambda>(base, n). n)") auto

declare digits_of.simps [simp del]

definition printf_u :: "32 word \<Rightarrow> string" where
  "printf_u v = digits_of 10 (unat v)"

definition printf_lu :: "64 word \<Rightarrow> string" where
  "printf_lu v = digits_of 10 (unat v)"

definition printf_d :: "32 word \<Rightarrow> string" where
  "printf_d v = (if sint v < 0 then CHR ''-'' # digits_of 10 (nat (- sint v))
                 else digits_of 10 (nat (sint v)))"

definition printf_x :: "32 word \<Rightarrow> string" where
  "printf_x v = digits_of 16 (unat v)"

text \<open>\<open>%3d\<close> and \<open>%02x\<close>: padding on the left to the field width.\<close>

definition pad_left :: "char \<Rightarrow> nat \<Rightarrow> string \<Rightarrow> string" where
  "pad_left c w s = replicate (w - length s) c @ s"

subsection \<open>Integer input: the number scanner of \<open>sscanf\<close> and \<open>strtoul\<close>\<close>

text \<open>
  The result of one conversion directive: the input ended before the directive could
  start (input failure), the input does not match (matching failure), or a value and
  the rest of the input.
\<close>

datatype 'a scan = Scan_eof | Scan_fail | Scan_ok 'a string

definition is_digit :: "nat \<Rightarrow> char \<Rightarrow> bool" where
  "is_digit base c =
     (let n = (of_char c :: nat) in
      (48 \<le> n \<and> n < 58) \<or>
      (base = 16 \<and> ((97 \<le> n \<and> n < 103) \<or> (65 \<le> n \<and> n < 71))))"

definition digit_val :: "char \<Rightarrow> nat" where
  "digit_val c =
     (let n = (of_char c :: nat) in
      if n < 58 then n - 48 else if n < 71 then n - 55 else n - 87)"

definition number_val :: "nat \<Rightarrow> string \<Rightarrow> nat" where
  "number_val base ds = foldl (\<lambda>a c. a * base + digit_val c) 0 ds"

text \<open>
  The integer directives of glibc's \<open>sscanf\<close>: white space is skipped; the end of the
  input there is an input failure; then an optional sign, for base 16 an optional
  \<open>0x\<close> after a leading zero, and the digits; no digit at all is a matching failure.
  The result is the sign, the digit string and the rest of the input.
\<close>

definition scan_number :: "nat \<Rightarrow> string \<Rightarrow> (bool \<times> string) scan" where
  "scan_number base s =
     (case dropWhile isspace s of
        [] \<Rightarrow> Scan_eof
      | c # s1 \<Rightarrow>
          let neg = (c = CHR ''-'');
              s2 = (if c = CHR ''-'' \<or> c = CHR ''+'' then s1 else c # s1);
              s3 = (case s2 of
                      z # x # r \<Rightarrow>
                        if z = CHR ''0'' \<and> base = 16 \<and> (x = CHR ''x'' \<or> x = CHR ''X'')
                        then CHR ''0'' # r else s2
                    | _ \<Rightarrow> s2);
              ds = takeWhile (is_digit base) s3
          in if ds = [] then Scan_fail
             else Scan_ok (neg, ds) (dropWhile (is_digit base) s3))"

text \<open>
  The value stored: \<open>strtoul\<close> (for \<open>%u\<close> and \<open>%x\<close>) saturates at \<open>ULONG_MAX\<close> and
  negates modulo \<open>2^64\<close>; \<open>strtol\<close> (for \<open>%d\<close>) saturates at \<open>LONG_MIN\<close> and
  \<open>LONG_MAX\<close>; the 64-bit result is then cut to the 32 bits of the argument.
\<close>

definition strtoul_val :: "nat \<Rightarrow> bool \<times> string \<Rightarrow> 64 word" where
  "strtoul_val base nd =
     (let n = number_val base (snd nd);
          v = (if n < 2 ^ 64 then of_nat n else (- 1 :: 64 word))
      in if fst nd then - v else v)"

definition strtol_val :: "nat \<Rightarrow> bool \<times> string \<Rightarrow> 64 word" where
  "strtol_val base nd =
     (let n = number_val base (snd nd)
      in if fst nd then (if n < 2 ^ 63 then - of_nat n else 2 ^ 63)
         else (if n < 2 ^ 63 then of_nat n else 2 ^ 63 - 1))"

definition scan_u :: "nat \<Rightarrow> string \<Rightarrow> (32 word) scan" where
  "scan_u base s =
     (case scan_number base s of
        Scan_eof \<Rightarrow> Scan_eof
      | Scan_fail \<Rightarrow> Scan_fail
      | Scan_ok nd rest \<Rightarrow> Scan_ok (ucast (strtoul_val base nd)) rest)"

definition scan_d :: "string \<Rightarrow> (32 word) scan" where
  "scan_d s =
     (case scan_number 10 s of
        Scan_eof \<Rightarrow> Scan_eof
      | Scan_fail \<Rightarrow> Scan_fail
      | Scan_ok nd rest \<Rightarrow> Scan_ok (ucast (strtol_val 10 nd)) rest)"

text \<open>
  \<open>strtoul(s, NULL, 16)\<close> cast to \<open>unsigned char\<close>, as \<open>make_node_hasi\<close> uses it: no
  digits give 0.
\<close>

definition strtoul16_byte :: "string \<Rightarrow> byte" where
  "strtoul16_byte s =
     (case scan_number 16 s of
        Scan_ok nd rest \<Rightarrow> ucast (strtoul_val 16 nd)
      | _ \<Rightarrow> 0)"

subsection \<open>Floating point and time: parameters\<close>

text \<open>
  The conversions between doubles and text (\<open>printf\<close> with \<open>%.Nlf\<close>, \<open>sscanf\<close> with
  \<open>%lf\<close>), between \<open>float\<close> and \<open>double\<close>, and \<open>ctime\<close> belong to the C library and the
  floating-point unit, not to rs.c. The model takes them as the fields of a parameter;
  doubles and floats are their 64 and 32 bits.
  \<^item> \<open>printf_lf space prec d\<close>: the text of \<open>%.preclf\<close> (\<open>% .preclf\<close> when \<open>space\<close>);
  \<^item> \<open>strtod s\<close>: the double at the start of the non-empty input \<open>s\<close> (white space
    already skipped) and the rest of the input, or \<open>None\<close>;
  \<^item> \<open>ctime24 t\<close>: what \<open>%.24s\<close> prints of \<open>ctime(&t)\<close>;
  \<^item> \<open>float_of_double\<close>, \<open>double_of_float\<close>: the casts.
\<close>

record libc =
  printf_lf :: "bool \<Rightarrow> nat \<Rightarrow> 64 word \<Rightarrow> string"
  strtod :: "string \<Rightarrow> (64 word \<times> string) option"
  ctime24 :: "64 word \<Rightarrow> string"
  float_of_double :: "64 word \<Rightarrow> 32 word"
  double_of_float :: "32 word \<Rightarrow> 64 word"

definition scan_lf :: "libc \<Rightarrow> string \<Rightarrow> (64 word) scan" where
  "scan_lf L s =
     (case dropWhile isspace s of
        [] \<Rightarrow> Scan_eof
      | c # s1 \<Rightarrow>
          (case strtod L (c # s1) of
             None \<Rightarrow> Scan_fail
           | Some (d, rest) \<Rightarrow> Scan_ok d rest))"


subsection \<open>\<open>sscanf\<close> with one directive, and \<open>read_parameter\<close>\<close>

text \<open>
  Every format that \<open>read_parameter\<close> receives is a literal label followed by one
  conversion directive: \<open>"version:%4c"\<close> is \<open>(''version:'', Conv_c 4)\<close>,
  \<open>"userflags:%x"\<close> is \<open>(''userflags:'', Conv_x)\<close>, \<open>"format:%4s"\<close> is
  \<open>(''format:'', Conv_s 4)\<close>, and so on.
\<close>

datatype conv = Conv_c nat | Conv_s nat | Conv_x | Conv_d | Conv_u | Conv_lf

type_synonym format = "string \<times> conv"

text \<open>
  The literal part: each character of the format must be the next character of the
  input. The end of the input is an input failure, another character a matching failure.
\<close>

fun match_literal :: "string \<Rightarrow> string \<Rightarrow> unit scan" where
  "match_literal [] s = Scan_ok () s"
| "match_literal (f # fs) [] = Scan_eof"
| "match_literal (f # fs) (c # s) = (if c = f then match_literal fs s else Scan_fail)"

text \<open>
  The directive, with the bytes it stores through its pointer argument (host byte order
  for numbers). \<open>%Nc\<close> stores the characters there are, up to \<open>N\<close>, and fails only at
  the end of the input (glibc). \<open>%Ns\<close> skips white space and stores up to \<open>N\<close>
  characters that are not white space, and a NUL.
\<close>

definition convert :: "libc \<Rightarrow> bool \<Rightarrow> conv \<Rightarrow> string \<Rightarrow> (byte list) scan" where
  "convert L le cv s =
     (case cv of
        Conv_c n \<Rightarrow>
          (if s = [] then Scan_eof else Scan_ok (map of_char (take n s)) (drop n s))
      | Conv_s n \<Rightarrow>
          (case dropWhile isspace s of
             [] \<Rightarrow> Scan_eof
           | c # s1 \<Rightarrow>
               let tok = take n (takeWhile (\<lambda>c. \<not> isspace c) (c # s1))
               in Scan_ok (map of_char tok @ [0]) (drop (length tok) (c # s1)))
      | Conv_x \<Rightarrow>
          (case scan_u 16 s of
             Scan_eof \<Rightarrow> Scan_eof | Scan_fail \<Rightarrow> Scan_fail
           | Scan_ok v r \<Rightarrow> Scan_ok (host_bytes32 le v) r)
      | Conv_u \<Rightarrow>
          (case scan_u 10 s of
             Scan_eof \<Rightarrow> Scan_eof | Scan_fail \<Rightarrow> Scan_fail
           | Scan_ok v r \<Rightarrow> Scan_ok (host_bytes32 le v) r)
      | Conv_d \<Rightarrow>
          (case scan_d s of
             Scan_eof \<Rightarrow> Scan_eof | Scan_fail \<Rightarrow> Scan_fail
           | Scan_ok v r \<Rightarrow> Scan_ok (host_bytes32 le v) r)
      | Conv_lf \<Rightarrow>
          (case scan_lf L s of
             Scan_eof \<Rightarrow> Scan_eof | Scan_fail \<Rightarrow> Scan_fail
           | Scan_ok v r \<Rightarrow> Scan_ok (host_bytes64 le v) r))"

text \<open>
  \<open>sscanf(line, format, buffer)\<close>: the count it returns (\<open>EOF\<close> is \<open>-1\<close>) and the
  bytes stored into \<open>buffer\<close> (none unless the count is 1).
\<close>

definition sscanf :: "libc \<Rightarrow> bool \<Rightarrow> string \<Rightarrow> format \<Rightarrow> int \<times> byte list" where
  "sscanf L le line fmt =
     (case match_literal (fst fmt) line of
        Scan_eof \<Rightarrow> (- 1, [])
      | Scan_fail \<Rightarrow> (0, [])
      | Scan_ok u s \<Rightarrow>
          (case convert L le (snd fmt) s of
             Scan_eof \<Rightarrow> (- 1, [])
           | Scan_fail \<Rightarrow> (0, [])
           | Scan_ok bs r \<Rightarrow> (1, bs)))"

lemma fgets_chars_length:
  "length (snd (fgets_chars n fd)) \<le> length fd"
  by (induction n fd rule: fgets_chars.induct) (auto split: prod.splits)

lemma fgets_chars_shorter:
  "0 < n \<Longrightarrow> fd \<noteq> [] \<Longrightarrow> length (snd (fgets_chars n fd)) < length fd"
  using fgets_chars_length [of "n - 1" "tl fd"]
  by (cases fd) (auto split: prod.splits)

lemma fgets_shorter:
  "fgets n fd = Some (cs, fd') \<Longrightarrow> 1 < n \<Longrightarrow> length fd' < length fd"
  using fgets_chars_shorter [of "n - 1" fd]
  by (auto simp: fgets_def split: if_splits)

lemma fgets_length:
  "fgets n fd = Some (cs, fd') \<Longrightarrow> length fd' \<le> length fd"
  using fgets_chars_length [of "n - 1" fd]
  by (auto simp: fgets_def split: if_splits)

text \<open>
  \<open>read_parameter\<close>: the loop reads lines from the position of the stream; a blank line
  ends it with the error 1; the first line on which \<open>sscanf\<close> does not return 0 ends it
  with 0 (also when \<open>sscanf\<close> returns \<open>EOF\<close> and has stored nothing); the end of the
  stream ends it with \<open>err\<close> as initialised, 0. The stream is then put back where it was,
  so the function returns no stream. It returns the error and the bytes stored.
\<close>

function read_parameter :: "libc \<Rightarrow> bool \<Rightarrow> string \<Rightarrow> format \<Rightarrow> int \<times> byte list \<times> diag list" where
  "read_parameter L le fd fmt =
     (case fgets SIZE_LINE fd of
        None \<Rightarrow> (0, [], [])
      | Some (cs, fd') \<Rightarrow>
          if chomp cs = [] then (1, [], [Cannot_find_parameter (fst fmt)])
          else (case sscanf L le (chomp cs) fmt of
                  (count, stored) \<Rightarrow>
                    if count \<noteq> 0 then (0, stored, [])
                    else read_parameter L le fd' fmt))"
  by pat_completeness auto
termination
  by (relation "measure (\<lambda>(L, le, fd, fmt). length fd)")
     (auto simp: SIZE_LINE_def dest: fgets_shorter)

declare read_parameter.simps [simp del]


section \<open>The text parser: \<open>make_node_xxxx\<close>\<close>

text \<open>\<open>struct config\<close>: the values carried from one block to the next.\<close>

record config =
  bin_format :: fourcc
  bin_type :: fourcc
  index :: "32 word"
  scalar_one :: "64 word"
  scalar_two :: "64 word"

definition BINFORMAT_CVIQ :: fourcc where "BINFORMAT_CVIQ = 0x63766971"
definition BINTYPE_FLT4 :: fourcc where "BINTYPE_FLT4 = 0x666c7434"

text \<open>
  A field of a struct that \<open>memset\<close> has zeroed, after \<open>sscanf\<close> has stored \<open>stored\<close> at
  its start: \<open>w\<close> bytes.
\<close>

definition field :: "nat \<Rightarrow> byte list \<Rightarrow> byte list" where
  "field w stored = take w (stored @ replicate w 0)"

text \<open>
  The sequence \<open>if( read_parameter(fd, format, &field) ) return 1 ;\<close> over the fields of
  a struct, each with its width. Every call reads from the same stream position. The
  result is the error and the bytes of the struct (the fields not reached stay zero).
\<close>

fun read_fields :: "libc \<Rightarrow> bool \<Rightarrow> string \<Rightarrow> (format \<times> nat) list \<Rightarrow> int \<times> byte list \<times> diag list" where
  "read_fields L le fd [] = (0, [], [])"
| "read_fields L le fd ((fmt, w) # fs) =
     (case read_parameter L le fd fmt of
        (err, stored, d) \<Rightarrow>
          if err \<noteq> 0 then (1, replicate (w + sum_list (map snd fs)) 0, d)
          else (case read_fields L le fd fs of
                  (err', bs, d') \<Rightarrow> (err', field w stored @ bs, d @ d')))"

text \<open>
  A make function returns its error, the new node (linked behind the list before any
  parameter is read), the configuration, the stream and the messages.
\<close>

type_synonym made = "int \<times> node \<times> config \<times> string \<times> diag list"

definition make_superblock :: "fourcc \<Rightarrow> config \<Rightarrow> string \<Rightarrow> made" where
  "make_superblock k config fd =
     (0, \<lparr>node_key = k, node_size = 0, node_data = []\<rparr>, config, fd, [])"

definition make_node_aqft :: "config \<Rightarrow> string \<Rightarrow> made" where
  "make_node_aqft = make_superblock KEY_AQFT"

definition make_node_head :: "config \<Rightarrow> string \<Rightarrow> made" where
  "make_node_head = make_superblock KEY_HEAD"

definition make_node_body :: "config \<Rightarrow> string \<Rightarrow> made" where
  "make_node_body = make_superblock KEY_BODY"

definition make_node_end :: "config \<Rightarrow> string \<Rightarrow> made" where
  "make_node_end = make_superblock KEY_END"

definition sign_formats :: "(format \<times> nat) list" where
  "sign_formats =
     [((''version:'', Conv_c 4), 4), ((''filetype:'', Conv_c 4), 4),
      ((''sitecode:'', Conv_c 4), 4), ((''userflags:'', Conv_x), 4),
      ((''description:'', Conv_c 64), 64), ((''ownername:'', Conv_c 64), 64),
      ((''comment:'', Conv_c 64), 64)]"

definition make_node_sign :: "libc \<Rightarrow> bool \<Rightarrow> config \<Rightarrow> string \<Rightarrow> made" where
  "make_node_sign L le config fd =
     (case read_fields L le fd sign_formats of
        (err, dat, d) \<Rightarrow>
          (err, \<lparr>node_key = KEY_sign, node_size = 208, node_data = dat\<rparr>, config, fd, d))"

text \<open>The offset between the epochs of 1904 and 1970, in seconds.\<close>

definition epoch_offset :: "32 word" where "epoch_offset = 2082844800"

definition make_node_mcda :: "libc \<Rightarrow> bool \<Rightarrow> config \<Rightarrow> string \<Rightarrow> made" where
  "make_node_mcda L le config fd =
     (case read_fields L le fd [((''filetimestamp:'', Conv_u), 4)] of
        (err, dat, d) \<Rightarrow>
          (err, \<lparr>node_key = KEY_mcda, node_size = 4,
                 node_data = (if err \<noteq> 0 then dat
                              else host_bytes32 le (host_u32 le dat + epoch_offset))\<rparr>,
           config, fd, d))"

definition make_node_dbrf :: "libc \<Rightarrow> bool \<Rightarrow> config \<Rightarrow> string \<Rightarrow> made" where
  "make_node_dbrf L le config fd =
     (case read_fields L le fd [((''rxloss:'', Conv_lf), 8)] of
        (err, dat, d) \<Rightarrow>
          (err, \<lparr>node_key = KEY_dbrf, node_size = 8, node_data = dat\<rparr>, config, fd, d))"

definition cnst_formats :: "(format \<times> nat) list" where
  "cnst_formats =
     [((''nchannels:'', Conv_d), 4), ((''nranges:'', Conv_d), 4),
      ((''nsweeps:'', Conv_d), 4), ((''iqindicator:'', Conv_d), 4)]"

definition make_node_cnst :: "libc \<Rightarrow> bool \<Rightarrow> config \<Rightarrow> string \<Rightarrow> made" where
  "make_node_cnst L le config fd =
     (case read_fields L le fd cnst_formats of
        (err, dat, d) \<Rightarrow>
          (err, \<lparr>node_key = KEY_cnst, node_size = 16, node_data = dat\<rparr>, config, fd, d))"

definition swep_formats :: "(format \<times> nat) list" where
  "swep_formats =
     [((''samplespersweep:'', Conv_d), 4), ((''sweepstart:'', Conv_lf), 8),
      ((''sweepbandwidth:'', Conv_lf), 8), ((''sweeprate:'', Conv_lf), 8),
      ((''rangeoffset:'', Conv_d), 4)]"

definition make_node_swep :: "libc \<Rightarrow> bool \<Rightarrow> config \<Rightarrow> string \<Rightarrow> made" where
  "make_node_swep L le config fd =
     (case read_fields L le fd swep_formats of
        (err, dat, d) \<Rightarrow>
          (err, \<lparr>node_key = KEY_swep, node_size = 32, node_data = dat\<rparr>, config, fd, d))"

text \<open>
  \<open>make_node_fbin\<close> reads each code as a string of at most 4 characters (\<open>%4s\<close>) and
  then swaps the field. The NUL that \<open>%4s\<close> stores after 4 characters falls on the byte
  behind the field (the first byte of \<open>bin_type\<close>, still zero, or the byte behind the
  struct); \<open>field 4\<close> keeps the 4 bytes of the field.
\<close>

definition make_node_fbin :: "libc \<Rightarrow> bool \<Rightarrow> config \<Rightarrow> string \<Rightarrow> made" where
  "make_node_fbin L le config fd =
     (case read_parameter L le fd (''format:'', Conv_s 4) of
        (err1, stored1, d1) \<Rightarrow>
          if err1 \<noteq> 0
          then (1, \<lparr>node_key = KEY_fbin, node_size = 8, node_data = replicate 8 0\<rparr>,
                config, fd, d1)
          else
            let f1 = endian_fixup le (field 4 stored1) in
            (case read_parameter L le fd (''type:'', Conv_s 4) of
               (err2, stored2, d2) \<Rightarrow>
                 if err2 \<noteq> 0
                 then (1, \<lparr>node_key = KEY_fbin, node_size = 8,
                            node_data = f1 @ replicate 4 0\<rparr>, config, fd, d1 @ d2)
                 else
                   let f2 = endian_fixup le (field 4 stored2) in
                   (0, \<lparr>node_key = KEY_fbin, node_size = 8, node_data = f1 @ f2\<rparr>,
                    config\<lparr>bin_format := host_u32 le f1, bin_type := host_u32 le f2\<rparr>,
                    fd, d1 @ d2)))"

definition make_node_rtag :: "libc \<Rightarrow> bool \<Rightarrow> config \<Rightarrow> string \<Rightarrow> made" where
  "make_node_rtag L le config fd =
     (case read_fields L le fd [((''rtag:'', Conv_u), 4)] of
        (err, dat, d) \<Rightarrow>
          (err, \<lparr>node_key = KEY_rtag, node_size = 4, node_data = dat\<rparr>, config, fd, d))"

definition gps1_formats :: "(format \<times> nat) list" where
  "gps1_formats =
     [((''lat:'', Conv_lf), 8), ((''lon:'', Conv_lf), 8), ((''alt:'', Conv_lf), 8),
      ((''gpstimestamp:'', Conv_u), 4)]"

definition make_node_gps1 :: "libc \<Rightarrow> bool \<Rightarrow> config \<Rightarrow> string \<Rightarrow> made" where
  "make_node_gps1 L le config fd =
     (case read_fields L le fd gps1_formats of
        (err, dat, d) \<Rightarrow>
          (err, \<lparr>node_key = KEY_gps1, node_size = 28,
                 node_data = (if err \<noteq> 0 then dat
                              else take 24 dat
                                   @ host_bytes32 le (host_u32 le (drop 24 dat) + epoch_offset))\<rparr>,
           config, fd, d))"

definition make_node_indx :: "libc \<Rightarrow> bool \<Rightarrow> config \<Rightarrow> string \<Rightarrow> made" where
  "make_node_indx L le config fd =
     (case read_fields L le fd [((''index:'', Conv_u), 4)] of
        (err, dat, d) \<Rightarrow>
          (err, \<lparr>node_key = KEY_indx, node_size = 4, node_data = dat\<rparr>, config, fd, d))"

definition make_node_scal :: "libc \<Rightarrow> bool \<Rightarrow> config \<Rightarrow> string \<Rightarrow> made" where
  "make_node_scal L le config fd =
     (case read_fields L le fd [((''scalar_one:'', Conv_lf), 8), ((''scalar_two:'', Conv_lf), 8)] of
        (err, dat, d) \<Rightarrow>
          (err, \<lparr>node_key = KEY_scal, node_size = 16, node_data = dat\<rparr>,
           (if err \<noteq> 0 then config
            else config\<lparr>scalar_one := host_u64 le (take 8 dat),
                        scalar_two := host_u64 le (drop 8 dat)\<rparr>),
           fd, d))"

subsection \<open>The opaque block: \<open>make_node_hasi\<close>\<close>

definition MAX_ARGC :: nat where "MAX_ARGC = 256"
definition MAX_LINE :: nat where "MAX_LINE = MAX_ARGC * 3 + 1"

text \<open>\<open>strtok\<close> with the separator \<open>" "\<close>, called until it returns \<open>NULL\<close>: the
  maximal runs of characters other than the space.\<close>

fun strtok_all :: "string \<Rightarrow> string \<Rightarrow> string list" where
  "strtok_all tok [] = (if tok = [] then [] else [tok])"
| "strtok_all tok (c # s) =
     (if c = CHR 0x20 then (if tok = [] then strtok_all [] s else tok # strtok_all [] s)
      else strtok_all (tok @ [c]) s)"

text \<open>
  \<open>make_node_hasi\<close> reads one line of at most \<open>MAX_LINE - 2\<close> characters, drops the
  first token (\<open>data:\<close>) and converts the following tokens, at most \<open>MAX_ARGC\<close> of them
  counted, as hexadecimal bytes. No token, or \<open>MAX_ARGC\<close> tokens and more, is an error.
\<close>

definition make_node_hasi :: "config \<Rightarrow> string \<Rightarrow> made" where
  "make_node_hasi config fd =
     (case fgets (MAX_LINE - 1) fd of
        None \<Rightarrow> (- 1, \<lparr>node_key = KEY_hasi, node_size = 0, node_data = []\<rparr>, config, fd, [])
      | Some (cs, fd') \<Rightarrow>
          let argv = tl (strtok_all [] (chomp cs));
              argc = min (length argv) MAX_ARGC
          in if argc = 0 \<or> argc = MAX_ARGC
             then (1, \<lparr>node_key = KEY_hasi, node_size = 0, node_data = []\<rparr>, config, fd', [])
             else (0, \<lparr>node_key = KEY_hasi, node_size = of_nat argc,
                        node_data = map strtoul16_byte (take argc argv)\<rparr>, config, fd', []))"

subsection \<open>The sample blocks: \<open>count_iqdata_lines\<close>, \<open>read_iqdata_samples\<close>,
  \<open>make_node_afft\<close>, \<open>make_node_ifft\<close>\<close>

text \<open>
  \<open>count_iqdata_lines\<close> counts the \<open>fgets\<close> reads up to the first one that gives an empty
  string, or to the end of the stream, and puts the stream back. The counter is an
  \<open>int\<close>; a stream with \<open>2^31\<close> reads and more is outside the model.
\<close>

function count_iqdata_lines :: "string \<Rightarrow> int" where
  "count_iqdata_lines fd =
     (case fgets SIZE_LINE fd of
        None \<Rightarrow> 0
      | Some (cs, fd') \<Rightarrow> if chomp cs = [] then 0 else 1 + count_iqdata_lines fd')"
  by pat_completeness auto
termination
  by (relation "measure length") (auto simp: SIZE_LINE_def dest: fgets_shorter)

declare count_iqdata_lines.simps [simp del]

text \<open>\<open>sscanf(line, "%d %lf %lf", &count, &i, &q)\<close>: the number of conversions and the
  two doubles.\<close>

definition sscanf_iq :: "libc \<Rightarrow> string \<Rightarrow> int \<times> 64 word \<times> 64 word" where
  "sscanf_iq L line =
     (case scan_d line of
        Scan_eof \<Rightarrow> (- 1, 0, 0)
      | Scan_fail \<Rightarrow> (0, 0, 0)
      | Scan_ok n r1 \<Rightarrow>
          (case scan_lf L r1 of
             Scan_ok i r2 \<Rightarrow>
               (case scan_lf L r2 of
                  Scan_ok q r3 \<Rightarrow> (3, i, q)
                | _ \<Rightarrow> (2, i, 0))
           | _ \<Rightarrow> (1, 0, 0)))"

text \<open>The loop of \<open>read_iqdata_samples\<close> over \<open>iqsamples\<close> lines; it returns the error, the
  bytes of the samples read and the stream, which is not put back.\<close>

fun read_samples_loop ::
  "libc \<Rightarrow> bool \<Rightarrow> nat \<Rightarrow> nat \<Rightarrow> string \<Rightarrow> int \<times> byte list \<times> string \<times> diag list" where
  "read_samples_loop L le sample_count 0 fd = (0, [], fd, [])"
| "read_samples_loop L le sample_count (Suc n) fd =
     (case fgets SIZE_LINE fd of
        None \<Rightarrow> (1, [], fd, [])
      | Some (cs, fd') \<Rightarrow>
          if chomp cs = [] then (1, [], fd', [])
          else (case sscanf_iq L (chomp cs) of
                  (convert_count, i, q) \<Rightarrow>
                    if convert_count \<noteq> 3
                    then (1, [], fd', [Failed_to_read_iqdata sample_count (chomp cs)])
                    else (case read_samples_loop L le (Suc sample_count) n fd' of
                            (err, bs, fd'', d) \<Rightarrow>
                              (err,
                               host_bytes32 le (float_of_double L i)
                               @ host_bytes32 le (float_of_double L q) @ bs,
                               fd'', d))))"

definition read_iqdata_samples ::
  "libc \<Rightarrow> bool \<Rightarrow> nat \<Rightarrow> config \<Rightarrow> string \<Rightarrow> int \<times> byte list \<times> string \<times> diag list" where
  "read_iqdata_samples L le iqsamples config fd =
     (if bin_format config \<noteq> BINFORMAT_CVIQ
      then (1, [], fd, [Cannot_handle_BINFORMAT (bin_format config)])
      else if bin_type config \<noteq> BINTYPE_FLT4
      then (1, [], fd, [Cannot_handle_BINTYPE (bin_type config)])
      else read_samples_loop L le 0 iqsamples fd)"

text \<open>
  \<open>make_node_afft\<close> and \<open>make_node_ifft\<close> differ in the key only. The data block has 8
  bytes for each line counted; the samples not read stay zero.
\<close>

definition make_node_iq :: "fourcc \<Rightarrow> libc \<Rightarrow> bool \<Rightarrow> config \<Rightarrow> string \<Rightarrow> made" where
  "make_node_iq k L le config fd =
     (let lines = count_iqdata_lines fd in
      if lines \<le> 0
      then (1, \<lparr>node_key = k, node_size = 0, node_data = []\<rparr>, config, fd,
            [Error_counting_lines k])
      else if lines mod 3 \<noteq> 0
      then (1, \<lparr>node_key = k, node_size = 0, node_data = []\<rparr>, config, fd,
            [Bad_number_of_lines lines k])
      else
        (case read_iqdata_samples L le (nat lines) config fd of
           (err, bs, fd', d) \<Rightarrow>
             (if err \<noteq> 0 then 1 else 0,
              \<lparr>node_key = k, node_size = of_nat (nat lines * 8),
                node_data = take (nat lines * 8) (bs @ replicate (nat lines * 8) 0)\<rparr>,
              config, fd', d @ (if err \<noteq> 0 then [Error_reading_block k] else []))))"

definition make_node_afft :: "libc \<Rightarrow> bool \<Rightarrow> config \<Rightarrow> string \<Rightarrow> made" where
  "make_node_afft = make_node_iq KEY_afft"

definition make_node_ifft :: "libc \<Rightarrow> bool \<Rightarrow> config \<Rightarrow> string \<Rightarrow> made" where
  "make_node_ifft = make_node_iq KEY_ifft"

text \<open>The \<open>make\<close> pointer of a dictionary entry.\<close>

definition make_node :: "block_functions \<Rightarrow> libc \<Rightarrow> bool \<Rightarrow> config \<Rightarrow> string \<Rightarrow> made" where
  "make_node f L le config fd =
     (case f of
        F_aqft \<Rightarrow> make_node_aqft config fd
      | F_head \<Rightarrow> make_node_head config fd
      | F_sign \<Rightarrow> make_node_sign L le config fd
      | F_mcda \<Rightarrow> make_node_mcda L le config fd
      | F_dbrf \<Rightarrow> make_node_dbrf L le config fd
      | F_cnst \<Rightarrow> make_node_cnst L le config fd
      | F_hasi \<Rightarrow> make_node_hasi config fd
      | F_swep \<Rightarrow> make_node_swep L le config fd
      | F_fbin \<Rightarrow> make_node_fbin L le config fd
      | F_body \<Rightarrow> make_node_body config fd
      | F_rtag \<Rightarrow> make_node_rtag L le config fd
      | F_gps1 \<Rightarrow> make_node_gps1 L le config fd
      | F_indx \<Rightarrow> make_node_indx L le config fd
      | F_scal \<Rightarrow> make_node_scal L le config fd
      | F_afft \<Rightarrow> make_node_afft L le config fd
      | F_ifft \<Rightarrow> make_node_ifft L le config fd
      | F_end \<Rightarrow> make_node_end config fd)"


section \<open>The binary encoder: \<open>gen_block_xxxx\<close>, \<open>rs_write\<close>\<close>

text \<open>
  Every \<open>gen_block_xxxx\<close> swaps the key and the size in place and writes them, then
  writes the fields of its struct from \<open>node->data\<close>, each after an endian fixup;
  \<open>gen_block_sign\<close> writes its fields as they are (its fixups are commented out) and
  \<open>gen_block_hasi\<close> writes \<open>size\<close> bytes as they are. \<open>fwrite\<close> is taken to succeed. The
  struct is read whatever the size field says; data shorter than what is read are a read
  out of bounds.
\<close>

definition gen_header :: "bool \<Rightarrow> node \<Rightarrow> byte list" where
  "gen_header le n =
     endian_fixup le (host_bytes32 le (node_key n))
     @ endian_fixup le (host_bytes32 le (node_size n))"

text \<open>
  The sample count of \<open>gen_block_afft\<close>: \<open>int actual_size = node->size\<close>, then
  \<open>actual_size / sizeof(...)\<close> computed in \<open>unsigned long\<close> and stored in an \<open>int\<close>.
\<close>

definition gen_sample_count :: "32 word \<Rightarrow> int" where
  "gen_sample_count sz = sint (ucast ((scast sz :: 64 word) div 8) :: 32 word)"

definition gen_payload :: "bool \<Rightarrow> block_functions \<Rightarrow> node \<Rightarrow> fault + byte list" where
  "gen_payload le f n =
     (case f of
        F_aqft \<Rightarrow> Inr [] | F_head \<Rightarrow> Inr [] | F_body \<Rightarrow> Inr [] | F_end \<Rightarrow> Inr []
      | F_sign \<Rightarrow>
          if length (node_data n) < 208 then Inl Out_of_bounds
          else Inr (take 208 (node_data n))
      | F_hasi \<Rightarrow>
          if length (node_data n) < unat (node_size n) then Inl Out_of_bounds
          else Inr (take (unat (node_size n)) (node_data n))
      | F_afft \<Rightarrow>
          (let sample_count = nat (gen_sample_count (node_size n)) in
           if length (node_data n) < 8 * sample_count then Inl Out_of_bounds
           else Inr (fixup_fields le (replicate (2 * sample_count) 4)
                       (take (8 * sample_count) (node_data n))))
      | F_ifft \<Rightarrow>
          (let sample_count = nat (gen_sample_count (node_size n)) in
           if length (node_data n) < 8 * sample_count then Inl Out_of_bounds
           else Inr (fixup_fields le (replicate (2 * sample_count) 4)
                       (take (8 * sample_count) (node_data n))))
      | _ \<Rightarrow>
          if length (node_data n) < sizeof_block f then Inl Out_of_bounds
          else Inr (fixup_fields le (fixup_widths f (node_size n))
                      (take (sizeof_block f) (node_data n))))"

definition gen_block :: "bool \<Rightarrow> block_functions \<Rightarrow> node \<Rightarrow> fault + (int \<times> byte list)" where
  "gen_block le f n =
     (case gen_payload le f n of
        Inl flt \<Rightarrow> Inl flt
      | Inr bs \<Rightarrow> Inr (0, gen_header le n @ bs))"

text \<open>
  \<open>rs_write\<close>: the error, the bytes written to \<open>outfile\<close> up to the return, and the
  messages.
\<close>

fun rs_write :: "bool \<Rightarrow> node list \<Rightarrow> fault + (int \<times> byte list \<times> diag list)" where
  "rs_write le [] = Inr (0, [], [])"
| "rs_write le (n # list) =
     (case find_block_functions (node_key n) of
        (None, d) \<Rightarrow> Inr (1, [], d @ [Cannot_write_block (node_key n)])
      | (Some f, d) \<Rightarrow>
          (case gen_block le f n of
             Inl flt \<Rightarrow> Inl flt
           | Inr (err, bs) \<Rightarrow>
               if err \<noteq> 0 then Inr (1, bs, d @ [Error_in_block (node_key n) 0])
               else (case rs_write le list of
                       Inl flt \<Rightarrow> Inl flt
                     | Inr (err', bs', d') \<Rightarrow> Inr (err', bs @ bs', d @ d'))))"

section \<open>The text-to-binary program: \<open>rsgen\<close>\<close>

text \<open>
  The line buffer of \<open>rsgen\<close> after \<open>fgets\<close> has stored the characters \<open>cs\<close> and their
  terminator over the old contents \<open>line\<close>, and \<open>chomp\<close> has set the last byte of the
  buffer to NUL and replaced the first newline of the string by NUL.
\<close>

definition store_line :: "string \<Rightarrow> string \<Rightarrow> string" where
  "store_line line cs =
     (let b = (cs @ [NUL] @ drop (length cs + 1) line)[SIZE_LINE - 1 := NUL];
          i = length (takeWhile (\<lambda>c. c \<noteq> NUL \<and> c \<noteq> NL) b)
      in if i < length b \<and> b ! i = NL then b[i := NUL] else b)"

lemma read_samples_loop_length:
  "length (fst (snd (snd (read_samples_loop L le c n fd)))) \<le> length fd"
proof (induction n arbitrary: c fd)
  case 0
  then show ?case by simp
next
  case (Suc n)
  show ?case
  proof (cases "fgets SIZE_LINE fd")
    case None
    then show ?thesis by simp
  next
    case (Some p)
    obtain cs fd' where p: "p = (cs, fd')" by (cases p)
    have l: "length fd' \<le> length fd" using Some p fgets_length by blast
    show ?thesis
      using Suc.IH [of "Suc c" fd'] l Some p
      by (auto split: prod.splits)
  qed
qed

lemma make_node_length:
  "length (fst (snd (snd (snd (make_node f L le config fd))))) \<le> length fd"
proof (cases f)
  case F_hasi
  then show ?thesis
    by (auto simp: make_node_def make_node_hasi_def Let_def dest: fgets_length
        split: option.splits)
next
  case F_afft
  then show ?thesis
    using read_samples_loop_length [of L le 0 "nat (count_iqdata_lines fd)" fd]
    by (auto simp: make_node_def make_node_afft_def make_node_iq_def Let_def
        read_iqdata_samples_def split: prod.splits)
next
  case F_ifft
  then show ?thesis
    using read_samples_loop_length [of L le 0 "nat (count_iqdata_lines fd)" fd]
    by (auto simp: make_node_def make_node_ifft_def make_node_iq_def Let_def
        read_iqdata_samples_def split: prod.splits)
qed (auto simp: make_node_def make_node_aqft_def make_node_head_def make_node_body_def
      make_node_end_def make_superblock_def make_node_sign_def make_node_mcda_def
      make_node_dbrf_def make_node_cnst_def make_node_swep_def make_node_fbin_def
      make_node_rtag_def make_node_gps1_def make_node_indx_def make_node_scal_def Let_def
      split: prod.splits)

lemma rsgen_loop_shorter:
  "fgets n infile = Some (cs, infile1) \<Longrightarrow> 1 < n \<Longrightarrow>
   make_node f L le config infile1 = (err, newnode, config1, infile2, d2) \<Longrightarrow>
   length infile2 < length infile"
  using make_node_length [of f L le config infile1] fgets_shorter [of n infile cs infile1]
  by simp

text \<open>
  The \<open>while\<close> loop of \<open>rsgen\<close>. Its state: the line buffer, the line count, the
  configuration, the nodes linked behind \<open>root\<close> so far, the messages so far and the
  input stream. It returns the error, the nodes, the line count and the messages.
\<close>

function rsgen_loop ::
  "libc \<Rightarrow> bool \<Rightarrow> string \<Rightarrow> nat \<Rightarrow> config \<Rightarrow> node list \<Rightarrow> diag list \<Rightarrow> string
     \<Rightarrow> int \<times> node list \<times> nat \<times> diag list" where
  "rsgen_loop L le line line_count config list diags infile =
     (case fgets SIZE_LINE infile of
        None \<Rightarrow> (0, list, line_count, diags)
      | Some (cs, infile1) \<Rightarrow>
          let line1 = store_line line cs in
          if length (cstring line1) \<le> 1
          then rsgen_loop L le line1 (line_count + 1) config list diags infile1
          else if CHR '':'' \<in> set (cstring line1)
          then rsgen_loop L le line1 (line_count + 1) config list diags infile1
          else
            let k = host_u32 le (endian_fixup le (map of_char (take 4 line1))) in
            (case find_block_functions k of
               (None, d) \<Rightarrow> (1, list, line_count + 1, diags @ d @ [Cannot_gen_block k])
             | (Some f, d) \<Rightarrow>
                 (case make_node f L le config infile1 of
                    (err, newnode, config1, infile2, d2) \<Rightarrow>
                      if err \<noteq> 0
                      then (1, list @ [newnode], line_count + 1,
                            diags @ d @ d2 @ [Error_in_block k (line_count + 1)])
                      else rsgen_loop L le line1 (line_count + 1) config1 (list @ [newnode])
                             (diags @ d @ d2) infile2)))"
  by pat_completeness auto
termination
  by (relation "measure (\<lambda>(L, le, line, line_count, config, list, diags, infile). length infile)")
     (auto simp: SIZE_LINE_def dest: fgets_shorter rsgen_loop_shorter [OF _ _ sym])

declare rsgen_loop.simps [simp del]

definition config0 :: config where
  "config0 = \<lparr>bin_format = 0, bin_type = 0, index = 0, scalar_one = 0, scalar_two = 0\<rparr>"

definition root0 :: node where
  "root0 = \<lparr>node_key = 0, node_size = 0, node_data = []\<rparr>"

text \<open>
  \<open>rsgen\<close>: \<open>line0\<close> is what the uninitialised line buffer holds. The loop builds the list
  behind the zeroed \<open>root\<close>; an error in the loop returns 1 at once. Otherwise
  \<open>fixup_sizes(&root)\<close> is called as a statement (its result is not used), and \<open>rs_write\<close>
  writes the list from \<open>root.next\<close>. The result is the error, the bytes written to
  \<open>outfile\<close> and the messages.
\<close>

definition rsgen :: "libc \<Rightarrow> bool \<Rightarrow> string \<Rightarrow> string \<Rightarrow> fault + (int \<times> byte list \<times> diag list)" where
  "rsgen L le line0 infile =
     (case rsgen_loop L le line0 0 config0 [] [] infile of
        (err, list, line_count, d) \<Rightarrow>
          if err \<noteq> 0 then Inr (1, [], d)
          else
            (case fixup_sizes (root0 # list) of
               (r, fixed) \<Rightarrow>
                 (case rs_write le (tl fixed) of
                    Inl flt \<Rightarrow> Inl flt
                  | Inr (err', bs, d') \<Rightarrow> Inr (err', bs, d @ d'))))"


section \<open>The text renderer: \<open>dump_block_xxxx\<close>, \<open>dump_list\<close>, \<open>rsdump\<close>\<close>

text \<open>
  \<open>strkey\<close> copies the four bytes of a key into \<open>Global_name\<close>, swaps them and
  terminates them; \<open>%s\<close> prints the array up to its first NUL.
\<close>

definition strkey :: "bool \<Rightarrow> fourcc \<Rightarrow> string" where
  "strkey le name = map (\<lambda>b. char_of (unat b)) (endian_fixup le (host_bytes32 le name))"

definition printf_s :: "string \<Rightarrow> string" where
  "printf_s array = cstring array"

text \<open>The fields of a packed struct in a data block, read by the host.\<close>

definition u32_at :: "bool \<Rightarrow> byte list \<Rightarrow> nat \<Rightarrow> 32 word" where
  "u32_at le dat off = host_u32 le (take 4 (drop off dat))"

definition u64_at :: "bool \<Rightarrow> byte list \<Rightarrow> nat \<Rightarrow> 64 word" where
  "u64_at le dat off = host_u64 le (take 8 (drop off dat))"

definition chars_at :: "byte list \<Rightarrow> nat \<Rightarrow> nat \<Rightarrow> string" where
  "chars_at dat off n = map (\<lambda>b. char_of (unat b)) (take n (drop off dat))"

text \<open>A dump function returns its error, the text written to \<open>outfile\<close>, the
  configuration and the messages, or the fault of reading behind the data block.\<close>

type_synonym dumped = "fault + (int \<times> string \<times> config \<times> diag list)"

definition dump_superblock :: "bool \<Rightarrow> fourcc \<Rightarrow> config \<Rightarrow> dumped" where
  "dump_superblock le k config = Inr (0, printf_s (strkey le k) @ [NL] @ [NL], config, [])"

definition dump_block_aqft :: "bool \<Rightarrow> node \<Rightarrow> config \<Rightarrow> dumped" where
  "dump_block_aqft le n config = dump_superblock le KEY_AQFT config"

definition dump_block_head :: "bool \<Rightarrow> node \<Rightarrow> config \<Rightarrow> dumped" where
  "dump_block_head le n config = dump_superblock le KEY_HEAD config"

definition dump_block_body :: "bool \<Rightarrow> node \<Rightarrow> config \<Rightarrow> dumped" where
  "dump_block_body le n config = dump_superblock le KEY_BODY config"

definition dump_block_end :: "bool \<Rightarrow> node \<Rightarrow> config \<Rightarrow> dumped" where
  "dump_block_end le n config = Inr (0, printf_s (strkey le KEY_END) @ [NL], config, [])"

text \<open>
  The common frame of the other dump functions: the size test against the struct, then
  the record: the key line, the lines of the fields, and a blank line. \<open>needed\<close> is the
  number of bytes of the data block that the function reads.
\<close>

definition dump_leaf ::
  "bool \<Rightarrow> block_functions \<Rightarrow> fourcc \<Rightarrow> node \<Rightarrow> config \<Rightarrow> nat \<Rightarrow> string \<Rightarrow> dumped" where
  "dump_leaf le f k n config needed lines =
     (if unat (node_size n) < sizeof_block f then Inr (1, [], config, [Block_is_truncated k])
      else if length (node_data n) < needed then Inl Out_of_bounds
      else Inr (0, printf_s (strkey le k) @ [NL] @ lines @ [NL], config, []))"

definition dump_block_sign :: "bool \<Rightarrow> node \<Rightarrow> config \<Rightarrow> dumped" where
  "dump_block_sign le n config =
     dump_leaf le F_sign KEY_sign n config 208
       (''version:'' @ printf_s (strkey le (u32_at le (node_data n) 0)) @ [NL]
        @ ''filetype:'' @ printf_s (strkey le (u32_at le (node_data n) 4)) @ [NL]
        @ ''sitecode:'' @ printf_s (strkey le (u32_at le (node_data n) 8)) @ [NL]
        @ ''userflags:'' @ printf_x (u32_at le (node_data n) 12) @ [NL]
        @ ''description:'' @ cstring (chars_at (node_data n) 16 64) @ [NL]
        @ ''ownername:'' @ cstring (chars_at (node_data n) 80 64) @ [NL]
        @ ''comment:'' @ cstring (chars_at (node_data n) 144 64) @ [NL])"

text \<open>
  The timestamp line of \<open>mcda\<close> and \<open>gps1\<close>: \<open>time_t t\<close> is the 32-bit value widened to
  64 bits; when it is not zero, the offset is subtracted in \<open>time_t\<close> and the result
  printed with \<open>%lu\<close>; when it is zero no line is written.
\<close>

definition timestamp_line :: "libc \<Rightarrow> string \<Rightarrow> 32 word \<Rightarrow> string" where
  "timestamp_line L label v =
     (let t = (ucast v :: 64 word) in
      if t \<noteq> 0
      then label @ printf_lu (t - 2082844800) @ '' (NB: seconds since 1970) (''
           @ ctime24 L (t - 2082844800) @ '')'' @ [NL]
      else [])"

definition dump_block_mcda :: "libc \<Rightarrow> bool \<Rightarrow> node \<Rightarrow> config \<Rightarrow> dumped" where
  "dump_block_mcda L le n config =
     dump_leaf le F_mcda KEY_mcda n config 4
       (timestamp_line L ''filetimestamp:'' (u32_at le (node_data n) 0))"

definition dump_block_dbrf :: "libc \<Rightarrow> bool \<Rightarrow> node \<Rightarrow> config \<Rightarrow> dumped" where
  "dump_block_dbrf L le n config =
     dump_leaf le F_dbrf KEY_dbrf n config 8
       (''rxloss:'' @ printf_lf L False 4 (u64_at le (node_data n) 0) @ [NL])"

definition dump_block_cnst :: "bool \<Rightarrow> node \<Rightarrow> config \<Rightarrow> dumped" where
  "dump_block_cnst le n config =
     dump_leaf le F_cnst KEY_cnst n config 16
       (''nchannels:'' @ printf_d (u32_at le (node_data n) 0) @ [NL]
        @ ''nranges:'' @ printf_d (u32_at le (node_data n) 4) @ [NL]
        @ ''nsweeps:'' @ printf_d (u32_at le (node_data n) 8) @ [NL]
        @ ''iqindicator:'' @ printf_d (u32_at le (node_data n) 12) @ [NL])"

text \<open>\<open>hexdump\<close>: \<open>data:\<close> and each byte as a space and two hexadecimal digits.\<close>

definition hexdump :: "byte list \<Rightarrow> string" where
  "hexdump bs =
     ''data:'' @ concat (map (\<lambda>b. CHR 0x20 # pad_left (CHR ''0'') 2 (digits_of 16 (unat b))) bs)
     @ [NL]"

definition dump_block_hasi :: "bool \<Rightarrow> node \<Rightarrow> config \<Rightarrow> dumped" where
  "dump_block_hasi le n config =
     dump_leaf le F_hasi KEY_hasi n config (unat (node_size n))
       (hexdump (take (unat (node_size n)) (node_data n)))"

definition dump_block_swep :: "libc \<Rightarrow> bool \<Rightarrow> node \<Rightarrow> config \<Rightarrow> dumped" where
  "dump_block_swep L le n config =
     dump_leaf le F_swep KEY_swep n config 32
       (''samplespersweep:'' @ printf_d (u32_at le (node_data n) 0) @ [NL]
        @ ''sweepstart:'' @ printf_lf L False 20 (u64_at le (node_data n) 4) @ [NL]
        @ ''sweepbandwidth:'' @ printf_lf L False 20 (u64_at le (node_data n) 12) @ [NL]
        @ ''sweeprate:'' @ printf_lf L False 20 (u64_at le (node_data n) 20) @ [NL]
        @ ''rangeoffset:'' @ printf_d (u32_at le (node_data n) 28) @ [NL])"

definition dump_block_fbin :: "bool \<Rightarrow> node \<Rightarrow> config \<Rightarrow> dumped" where
  "dump_block_fbin le n config =
     dump_leaf le F_fbin KEY_fbin n
       (config\<lparr>bin_format := u32_at le (node_data n) 0, bin_type := u32_at le (node_data n) 4\<rparr>)
       8
       (''format:'' @ printf_s (strkey le (u32_at le (node_data n) 0)) @ [NL]
        @ ''type:'' @ printf_s (strkey le (u32_at le (node_data n) 4)) @ [NL])"

definition dump_block_rtag :: "bool \<Rightarrow> node \<Rightarrow> config \<Rightarrow> dumped" where
  "dump_block_rtag le n config =
     dump_leaf le F_rtag KEY_rtag n config 4
       (''rtag:'' @ printf_u (u32_at le (node_data n) 0) @ [NL])"

definition dump_block_gps1 :: "libc \<Rightarrow> bool \<Rightarrow> node \<Rightarrow> config \<Rightarrow> dumped" where
  "dump_block_gps1 L le n config =
     dump_leaf le F_gps1 KEY_gps1 n config 28
       (''lat:'' @ printf_lf L False 6 (u64_at le (node_data n) 0) @ [NL]
        @ ''lon:'' @ printf_lf L False 6 (u64_at le (node_data n) 8) @ [NL]
        @ ''alt:'' @ printf_lf L False 6 (u64_at le (node_data n) 16) @ [NL]
        @ timestamp_line L ''gpstimestamp:'' (u32_at le (node_data n) 24))"

definition dump_block_indx :: "bool \<Rightarrow> node \<Rightarrow> config \<Rightarrow> dumped" where
  "dump_block_indx le n config =
     dump_leaf le F_indx KEY_indx n
       (config\<lparr>index := u32_at le (node_data n) 0\<rparr>) 4
       (''index:'' @ printf_u (u32_at le (node_data n) 0) @ [NL])"

definition dump_block_scal :: "libc \<Rightarrow> bool \<Rightarrow> node \<Rightarrow> config \<Rightarrow> dumped" where
  "dump_block_scal L le n config =
     dump_leaf le F_scal KEY_scal n
       (config\<lparr>scalar_one := u64_at le (node_data n) 0,
               scalar_two := u64_at le (node_data n) 8\<rparr>) 16
       (''scalar_one:'' @ printf_lf L False 20 (u64_at le (node_data n) 0) @ [NL]
        @ ''scalar_two:'' @ printf_lf L False 20 (u64_at le (node_data n) 8) @ [NL])"

text \<open>
  The sample blocks: after the size test the configuration must say \<open>cviq\<close> and \<open>flt4\<close>;
  then one line for each of the \<open>size / 8\<close> samples: the index in a field of 3, and the
  two floats as doubles with the space flag and the given precision (20 for \<open>afft\<close>, 16
  for \<open>ifft\<close>).
\<close>

definition sample_line :: "libc \<Rightarrow> bool \<Rightarrow> nat \<Rightarrow> byte list \<Rightarrow> nat \<Rightarrow> string" where
  "sample_line L le prec dat loop =
     pad_left (CHR 0x20) 3 (printf_d (of_nat loop)) @ [CHR 0x20]
     @ printf_lf L True prec (double_of_float L (u32_at le dat (8 * loop))) @ [CHR 0x20]
     @ printf_lf L True prec (double_of_float L (u32_at le dat (8 * loop + 4))) @ [NL]"

definition dump_block_iq ::
  "block_functions \<Rightarrow> fourcc \<Rightarrow> nat \<Rightarrow> libc \<Rightarrow> bool \<Rightarrow> node \<Rightarrow> config \<Rightarrow> dumped" where
  "dump_block_iq f k prec L le n config =
     (if unat (node_size n) < sizeof_block f then Inr (1, [], config, [Block_is_truncated k])
      else if bin_format config \<noteq> BINFORMAT_CVIQ
      then Inr (1, [], config, [Cannot_handle_BINFORMAT (bin_format config)])
      else if bin_type config \<noteq> BINTYPE_FLT4
      then Inr (1, [], config, [Cannot_handle_BINTYPE (bin_type config)])
      else
        let nsamples = unat (node_size n) div 8 in
        if length (node_data n) < 8 * nsamples then Inl Out_of_bounds
        else Inr (0,
                  printf_s (strkey le k) @ [NL]
                  @ concat (map (sample_line L le prec (node_data n)) [0..<nsamples]) @ [NL],
                  config, []))"

definition dump_block_afft :: "libc \<Rightarrow> bool \<Rightarrow> node \<Rightarrow> config \<Rightarrow> dumped" where
  "dump_block_afft = dump_block_iq F_afft KEY_afft 20"

definition dump_block_ifft :: "libc \<Rightarrow> bool \<Rightarrow> node \<Rightarrow> config \<Rightarrow> dumped" where
  "dump_block_ifft = dump_block_iq F_ifft KEY_ifft 16"

text \<open>The \<open>dump\<close> pointer of a dictionary entry.\<close>

definition dump_block :: "block_functions \<Rightarrow> libc \<Rightarrow> bool \<Rightarrow> node \<Rightarrow> config \<Rightarrow> dumped" where
  "dump_block f L le n config =
     (case f of
        F_aqft \<Rightarrow> dump_block_aqft le n config
      | F_head \<Rightarrow> dump_block_head le n config
      | F_sign \<Rightarrow> dump_block_sign le n config
      | F_mcda \<Rightarrow> dump_block_mcda L le n config
      | F_dbrf \<Rightarrow> dump_block_dbrf L le n config
      | F_cnst \<Rightarrow> dump_block_cnst le n config
      | F_hasi \<Rightarrow> dump_block_hasi le n config
      | F_swep \<Rightarrow> dump_block_swep L le n config
      | F_fbin \<Rightarrow> dump_block_fbin le n config
      | F_body \<Rightarrow> dump_block_body le n config
      | F_rtag \<Rightarrow> dump_block_rtag le n config
      | F_gps1 \<Rightarrow> dump_block_gps1 L le n config
      | F_indx \<Rightarrow> dump_block_indx le n config
      | F_scal \<Rightarrow> dump_block_scal L le n config
      | F_afft \<Rightarrow> dump_block_afft L le n config
      | F_ifft \<Rightarrow> dump_block_ifft L le n config
      | F_end \<Rightarrow> dump_block_end le n config)"

text \<open>
  The loop of \<open>dump_list\<close>, with the local \<open>config\<close> as an argument. In header-only mode
  the loop returns 0 when it reaches the entry whose dump function is
  \<open>dump_block_body\<close>.
\<close>

fun dump_loop ::
  "libc \<Rightarrow> bool \<Rightarrow> node list \<Rightarrow> config \<Rightarrow> bool \<Rightarrow> fault + (int \<times> string \<times> diag list)" where
  "dump_loop L le [] config just_header = Inr (0, [], [])"
| "dump_loop L le (n # list) config just_header =
     (case find_block_functions (node_key n) of
        (None, d) \<Rightarrow> Inr (1, [], d @ [Cannot_dump_block (node_key n)])
      | (Some f, d) \<Rightarrow>
          if just_header \<and> f = F_body then Inr (0, [], d)
          else
            (case dump_block f L le n config of
               Inl flt \<Rightarrow> Inl flt
             | Inr (err, text, config1, d1) \<Rightarrow>
                 if err \<noteq> 0
                 then Inr (1, text, d @ d1 @ [Error_dumping_block (node_key n)])
                 else (case dump_loop L le list config1 just_header of
                         Inl flt \<Rightarrow> Inl flt
                       | Inr (err', text', d') \<Rightarrow> Inr (err', text @ text', d @ d1 @ d'))))"

definition dump_list ::
  "libc \<Rightarrow> bool \<Rightarrow> node list \<Rightarrow> bool \<Rightarrow> fault + (int \<times> string \<times> diag list)" where
  "dump_list L le list just_header = dump_loop L le list config0 just_header"

text \<open>
  \<open>rsdump\<close>: the whole file is read into the buffer; when \<open>read_binary_file\<close> fails
  nothing is parsed and \<open>err\<close> stays 0; otherwise the list of \<open>parse_file\<close> is dumped.
  The result is the error, the text written and the messages.
\<close>

definition rsdump ::
  "libc \<Rightarrow> bool \<Rightarrow> byte list \<Rightarrow> bool \<Rightarrow> fault + (int \<times> string \<times> diag list)" where
  "rsdump L le infile just_header =
     (case read_binary_file le infile of
        (r, d) \<Rightarrow>
          if r \<noteq> 0 then Inr (0, [], d)
          else
            (case parse_file le infile of
               Inl flt \<Rightarrow> Inl flt
             | Inr (list, d1) \<Rightarrow>
                 (case dump_list L le list just_header of
                    Inl flt \<Rightarrow> Inl flt
                  | Inr (err, text, d2) \<Rightarrow> Inr (err, text, d @ d1 @ d2))))"

section \<open>An instance of the library parameters for evaluation\<close>

text \<open>
  \<open>libc_zero\<close> is a fragment of a C library for evaluating the model on concrete inputs.
  The only floating-point number it knows is zero: it prints the double \<open>+0.0\<close> as
  \<open>printf\<close> does, and reads a numeral of zeros (\<open>0\<close>, \<open>000\<close>, \<open>0.000\<close>) as \<open>+0.0\<close>, as
  \<open>strtod\<close> does. It prints every other double as \<open>nan\<close>, reads no other numeral, and
  gives every time the same text. It is used only in closed theorems whose inputs keep
  within the fragment; every general theorem is about an arbitrary library \<open>L\<close>.
\<close>

definition strtod_zero :: "string \<Rightarrow> (64 word \<times> string) option" where
  "strtod_zero s =
     (let r1 = dropWhile (\<lambda>c. c = CHR ''0'') s in
      if takeWhile (\<lambda>c. c = CHR ''0'') s = [] then None
      else (case r1 of
              [] \<Rightarrow> Some (0, [])
            | c # r2 \<Rightarrow>
                if c = CHR ''.''
                then (let r3 = dropWhile (\<lambda>c. c = CHR ''0'') r2 in
                      case r3 of
                        [] \<Rightarrow> Some (0, [])
                      | e # r4 \<Rightarrow>
                          if is_digit 10 e \<or> e = CHR ''e'' \<or> e = CHR ''E'' then None
                          else Some (0, r3))
                else if is_digit 10 c \<or> c = CHR ''e'' \<or> c = CHR ''E''
                        \<or> c = CHR ''x'' \<or> c = CHR ''X''
                then None
                else Some (0, r1)))"

definition libc_zero :: libc where
  "libc_zero =
     \<lparr>printf_lf = (\<lambda>space prec d.
          if d = 0 then (if space then '' '' else []) @ ''0.'' @ replicate prec (CHR ''0'')
          else ''nan''),
      strtod = strtod_zero,
      ctime24 = (\<lambda>t. ''Thu Jan  1 00:00:00 1970''),
      float_of_double = (\<lambda>d. if d = 0 then 0 else 0x7fc00000),
      double_of_float = (\<lambda>f. if f = 0 then 0 else 0x7ff8000000000000)\<rparr>"


section \<open>Notions of the specification\<close>

text \<open>
  The specification speaks of the sum of \<open>byte_size + 8\<close> over a run of blocks, of the
  blocks strictly after one sentinel and strictly before another, and of the sentinel
  codes that delimit the head and body regions. These definitions follow its words; they
  are compared with the scans of the source below.
\<close>

definition sum_sizes :: "node list \<Rightarrow> 32 word" where
  "sum_sizes ns = sum_list (map (\<lambda>n. node_size n + header_size) ns)"

definition between :: "fourcc \<Rightarrow> fourcc \<Rightarrow> node list \<Rightarrow> node list" where
  "between k1 k2 list =
     takeWhile (\<lambda>n. node_key n \<noteq> k2) (tl (dropWhile (\<lambda>n. node_key n \<noteq> k1) list))"

definition sentinel :: "fourcc \<Rightarrow> bool" where
  "sentinel k = (k = KEY_HEAD \<or> k = KEY_BODY \<or> k = KEY_END)"

text \<open>A flat sequence in which the terminator code also closes the head region: an
  \<open>indx\<close> block lies after \<open>HEAD\<close> and \<open>END\<close> and before \<open>BODY\<close>.\<close>

definition region_example :: "node list" where
  "region_example =
     [\<lparr>node_key = KEY_AQFT, node_size = 0, node_data = []\<rparr>,
      \<lparr>node_key = KEY_HEAD, node_size = 0, node_data = []\<rparr>,
      \<lparr>node_key = KEY_rtag, node_size = 4, node_data = [0, 0, 0, 1]\<rparr>,
      \<lparr>node_key = KEY_END, node_size = 0, node_data = []\<rparr>,
      \<lparr>node_key = KEY_indx, node_size = 4, node_data = [0, 0, 0, 2]\<rparr>,
      \<lparr>node_key = KEY_BODY, node_size = 0, node_data = []\<rparr>,
      \<lparr>node_key = KEY_scal, node_size = 16, node_data = replicate 16 0\<rparr>]"

text \<open>The scenario of the specification: a head region of 16 bytes (one \<open>dbrf\<close> block of
  8 bytes and its header) and a body region of 24 bytes (one \<open>scal\<close> block of 16 bytes
  and its header), followed by the terminator.\<close>

definition scenario_56 :: "node list" where
  "scenario_56 =
     [\<lparr>node_key = KEY_AQFT, node_size = 0, node_data = []\<rparr>,
      \<lparr>node_key = KEY_HEAD, node_size = 0, node_data = []\<rparr>,
      \<lparr>node_key = KEY_dbrf, node_size = 8, node_data = replicate 8 0\<rparr>,
      \<lparr>node_key = KEY_BODY, node_size = 0, node_data = []\<rparr>,
      \<lparr>node_key = KEY_scal, node_size = 16, node_data = replicate 16 0\<rparr>,
      \<lparr>node_key = KEY_END, node_size = 0, node_data = []\<rparr>]"

text \<open>The size that \<open>parse_block\<close> keeps for a block: the declared size, clamped to the
  counter of the bytes left.\<close>

definition clamp_size :: "32 word \<Rightarrow> 64 word \<Rightarrow> 32 word" where
  "clamp_size size0 len1 = (if ucast size0 > len1 then ucast len1 else size0)"

text \<open>
  A line of text as the programs read it: no newline and no NUL inside, and short enough
  for one \<open>fgets\<close> call into a buffer of \<open>SIZE_LINE\<close> bytes to read it with its
  newline (at most 254 characters).
\<close>

definition textline :: "string \<Rightarrow> bool" where
  "textline l = (NL \<notin> set l \<and> NUL \<notin> set l \<and> length l < SIZE_LINE - 1)"

text \<open>The text of a list of lines, each ended by a newline.\<close>

definition unlines :: "string list \<Rightarrow> string" where
  "unlines ls = concat (map (\<lambda>l. l @ [NL]) ls)"

text \<open>The type code that \<open>rsgen\<close> takes from a line of at least two characters that
  ends with a newline: its first four bytes, the line counted with its terminators.\<close>

definition key_of_line :: "string \<Rightarrow> fourcc" where
  "key_of_line l = word_rcat (map of_char (take 4 (l @ [NUL, NUL])) :: byte list)"

text \<open>The line buffer of \<open>rsgen\<close> after it has read the line \<open>l\<close> and its newline.\<close>

definition next_line :: "string \<Rightarrow> string \<Rightarrow> string" where
  "next_line line l = store_line line (l @ [NL])"

text \<open>A type code without an entry in the registry.\<close>

definition unknown_code :: "fourcc \<Rightarrow> bool" where
  "unknown_code k = (fst (find_block_functions k) = None)"

text \<open>
  A file whose body holds a block with the code \<open>XXXX\<close>: the root of 40 bytes with a head
  of one \<open>rtag\<close> block and a body of one \<open>XXXX\<close> block of 4 bytes, and the terminator.
\<close>

definition unknown_in_body :: "byte list" where
  "unknown_in_body =
     [0x41, 0x51, 0x46, 0x54, 0, 0, 0, 40,
      0x48, 0x45, 0x41, 0x44, 0, 0, 0, 12,
      0x72, 0x74, 0x61, 0x67, 0, 0, 0, 4,  0, 0, 0, 1,
      0x42, 0x4f, 0x44, 0x59, 0, 0, 0, 12,
      0x58, 0x58, 0x58, 0x58, 0, 0, 0, 4,  1, 2, 3, 4,
      0x45, 0x4e, 0x44, 0x20, 0, 0, 0, 0]"

text \<open>A text without the body sentinel: the root, a head with one \<open>rtag\<close> block, and
  the terminator.\<close>

definition text_no_body :: string where
  "text_no_body = unlines [''AQFT'', [], ''HEAD'', [], ''rtag'', ''rtag:7'', [], ''END '']"

text \<open>The number that a list of bytes spells, the first byte the most significant.\<close>

definition be_nat :: "byte list \<Rightarrow> nat" where
  "be_nat bs = foldl (\<lambda>a b. a * 256 + unat b) 0 bs"

text \<open>
  A file whose \<open>mcda\<close> block holds the timestamp 0: the root of 40 bytes with a head of
  one \<open>mcda\<close> block and a body of one \<open>indx\<close> block, and the terminator; and the text
  that \<open>rsdump\<close> writes for it.
\<close>

definition mcda_zero_file :: "byte list" where
  "mcda_zero_file =
     [0x41, 0x51, 0x46, 0x54, 0, 0, 0, 40,
      0x48, 0x45, 0x41, 0x44, 0, 0, 0, 12,
      0x6d, 0x63, 0x64, 0x61, 0, 0, 0, 4,  0, 0, 0, 0,
      0x42, 0x4f, 0x44, 0x59, 0, 0, 0, 12,
      0x69, 0x6e, 0x64, 0x78, 0, 0, 0, 4,  0, 0, 0, 1,
      0x45, 0x4e, 0x44, 0x20, 0, 0, 0, 0]"

definition mcda_zero_text :: string where
  "mcda_zero_text =
     unlines [''AQFT'', [], ''HEAD'', [], ''mcda'', [], ''BODY'', [], ''indx'', ''index:1'', [],
              ''END '']"


section \<open>Properties\<close>

lemmas KEY_defs = KEY_AQFT_def KEY_HEAD_def KEY_sign_def KEY_mcda_def KEY_dbrf_def
  KEY_cnst_def KEY_hasi_def KEY_swep_def KEY_fbin_def KEY_BODY_def KEY_rtag_def
  KEY_gps1_def KEY_indx_def KEY_scal_def KEY_afft_def KEY_ifft_def KEY_END_def

lemma keys_distinct:
  "KEY_HEAD \<noteq> KEY_BODY" "KEY_HEAD \<noteq> KEY_END" "KEY_BODY \<noteq> KEY_END"
  "KEY_BODY \<noteq> KEY_HEAD" "KEY_END \<noteq> KEY_HEAD" "KEY_END \<noteq> KEY_BODY"
  "KEY_AQFT \<noteq> KEY_HEAD" "KEY_AQFT \<noteq> KEY_BODY" "KEY_AQFT \<noteq> KEY_END"
  "KEY_HEAD \<noteq> KEY_AQFT" "KEY_BODY \<noteq> KEY_AQFT" "KEY_END \<noteq> KEY_AQFT"
  by (simp_all add: KEY_defs)

subsection \<open>Size reconciliation\<close>

lemma sum_sizes_simps [simp]:
  "sum_sizes [] = 0"
  "sum_sizes (n # ns) = node_size n + header_size + sum_sizes ns"
  by (simp_all add: sum_sizes_def)

lemma sum_sizes_append: "sum_sizes (xs @ ys) = sum_sizes xs + sum_sizes ys"
  by (simp add: sum_sizes_def)

lemma head_loop_plain:
  "\<forall>n\<in>set xs. \<not> sentinel (node_key n) \<Longrightarrow>
   head_loop f sz (xs @ ys) = head_loop f (if f then sz + sum_sizes xs else sz) ys"
  by (induction xs arbitrary: sz) (auto simp: sentinel_def Let_def add.assoc)

lemma body_loop_plain:
  "\<forall>n\<in>set xs. \<not> sentinel (node_key n) \<Longrightarrow>
   body_loop f sz (xs @ ys) = body_loop f (if f then sz + sum_sizes xs else sz) ys"
  by (induction xs arbitrary: sz) (auto simp: sentinel_def Let_def add.assoc)

lemma set_block_size_keys:
  "map node_key (snd (set_block_size list k sz)) = map node_key list"
  by (induction list) (auto split: prod.splits)

lemma set_block_size_ret:
  "fst (set_block_size list k sz) = (if k \<in> node_key ` set list then 0 else 1)"
  by (induction list) (auto split: prod.splits)


lemma set_block_size_keyset:
  "node_key ` set (snd (set_block_size list k sz)) = node_key ` set list"
  using set_block_size_keys[of list k sz] by (metis list.set_map)

lemma fixup_sizes_ret:
  "fst (fixup_sizes list) =
     (if calculate_head_size list \<noteq> 0 \<and> calculate_body_size list \<noteq> 0
         \<and> KEY_AQFT \<in> node_key ` set list \<and> KEY_HEAD \<in> node_key ` set list
         \<and> KEY_BODY \<in> node_key ` set list then 0 else 1)"
proof -
  let ?h = "calculate_head_size list" and ?b = "calculate_body_size list"
  let ?a = "?h + header_size + ?b + header_size"
  obtain r1 l1 where s1: "set_block_size list KEY_AQFT ?a = (r1, l1)" by force
  obtain r2 l2 where s2: "set_block_size l1 KEY_HEAD ?h = (r2, l2)" by force
  obtain r3 l3 where s3: "set_block_size l2 KEY_BODY ?b = (r3, l3)" by force
  have e1: "r1 = (if KEY_AQFT \<in> node_key ` set list then 0 else 1)"
    using set_block_size_ret[of list KEY_AQFT ?a] s1 by simp
  have ks1: "node_key ` set l1 = node_key ` set list"
    using set_block_size_keyset[of list KEY_AQFT ?a] s1 by simp
  have e2: "r2 = (if KEY_HEAD \<in> node_key ` set list then 0 else 1)"
    using set_block_size_ret[of l1 KEY_HEAD ?h] s2 ks1 by simp
  have ks2: "node_key ` set l2 = node_key ` set list"
    using set_block_size_keyset[of l1 KEY_HEAD ?h] s2 ks1 by simp
  have e3: "r3 = (if KEY_BODY \<in> node_key ` set list then 0 else 1)"
    using set_block_size_ret[of l2 KEY_BODY ?b] s3 ks2 by simp
  show ?thesis
    unfolding fixup_sizes_def Let_def s1 s2 s3 prod.case
    by (simp add: e1 e2 e3)
qed





text \<open>
  C3, as stated, fails: in \<open>region_example\<close> the \<open>indx\<close> block lies strictly after the
  head sentinel and strictly before the body sentinel and is no sentinel, yet the scan
  of \<open>calculate_head_size\<close> has left the head region at the terminator code and does not
  count it. The head size computed is 12; the sum over the blocks between the two
  sentinels is 32, and 24 without the sentinel among them.
\<close>

theorem region_sizes_counterexample:
  "calculate_head_size region_example = 12
   \<and> sum_sizes (between KEY_HEAD KEY_BODY region_example) = 32
   \<and> sum_sizes (filter (\<lambda>n. \<not> sentinel (node_key n))
        (between KEY_HEAD KEY_BODY region_example)) = 24"
  by (simp add: region_example_def calculate_head_size_def between_def sentinel_def
      KEY_defs header_size_def)

text \<open>
  C3, amended. For every flat block sequence in which the head, body and terminator
  sentinels each occur exactly once and in this order, \<open>calculate_head_size\<close> is the sum
  of \<open>byte_size + 8\<close> (in 32-bit unsigned arithmetic) over exactly the blocks strictly
  between the head and the body sentinel, and \<open>calculate_body_size\<close> the same sum over
  exactly the blocks strictly between the body sentinel and the terminator; the blocks
  before the head sentinel, the blocks after the terminator and the three sentinels
  contribute nothing.
\<close>

theorem region_sizes:
  assumes "list = pre @ h # hs @ b # bs @ e # post"
    and "node_key h = KEY_HEAD" and "node_key b = KEY_BODY" and "node_key e = KEY_END"
    and "\<forall>n\<in>set (pre @ hs @ bs @ post). \<not> sentinel (node_key n)"
  shows "calculate_head_size list = sum_sizes hs \<and> calculate_body_size list = sum_sizes bs"
proof -
  have p: "\<forall>n\<in>set pre. \<not> sentinel (node_key n)" "\<forall>n\<in>set hs. \<not> sentinel (node_key n)"
    "\<forall>n\<in>set bs. \<not> sentinel (node_key n)" "\<forall>n\<in>set post. \<not> sentinel (node_key n)"
    using assms(5) by auto
  have post0: "\<And>f sz. head_loop f sz (post @ []) = head_loop f (if f then sz + sum_sizes post else sz) []"
    using head_loop_plain[OF p(4)] by blast
  have postb: "\<And>f sz. body_loop f sz (post @ []) = body_loop f (if f then sz + sum_sizes post else sz) []"
    using body_loop_plain[OF p(4)] by blast
  have "calculate_head_size list = sum_sizes hs"
    unfolding calculate_head_size_def assms(1)
    using post0
    by (simp add: head_loop_plain[OF p(1)] head_loop_plain[OF p(2)] head_loop_plain[OF p(3)]
        assms(2,3,4) keys_distinct Let_def)
  moreover have "calculate_body_size list = sum_sizes bs"
    unfolding calculate_body_size_def assms(1)
    using postb
    by (simp add: body_loop_plain[OF p(1)] body_loop_plain[OF p(2)] body_loop_plain[OF p(3)]
        assms(2,3,4) keys_distinct Let_def)
  ultimately show ?thesis by simp
qed

theorem region_sizes_witness:
  "calculate_head_size scenario_56 = sum_sizes [\<lparr>node_key = KEY_dbrf, node_size = 8, node_data = replicate 8 0\<rparr>]
   \<and> calculate_body_size scenario_56 = sum_sizes [\<lparr>node_key = KEY_scal, node_size = 16, node_data = replicate 16 0\<rparr>]
   \<and> sum_sizes [\<lparr>node_key = KEY_dbrf, node_size = 8, node_data = replicate 8 0\<rparr>] = 16
   \<and> sum_sizes [\<lparr>node_key = KEY_scal, node_size = 16, node_data = replicate 16 0\<rparr>] = 24"
proof -
  have d: "scenario_56 = [\<lparr>node_key = KEY_AQFT, node_size = 0, node_data = []\<rparr>]
      @ \<lparr>node_key = KEY_HEAD, node_size = 0, node_data = []\<rparr>
      # [\<lparr>node_key = KEY_dbrf, node_size = 8, node_data = replicate 8 0\<rparr>]
      @ \<lparr>node_key = KEY_BODY, node_size = 0, node_data = []\<rparr>
      # [\<lparr>node_key = KEY_scal, node_size = 16, node_data = replicate 16 0\<rparr>]
      @ \<lparr>node_key = KEY_END, node_size = 0, node_data = []\<rparr> # []"
    by (simp add: scenario_56_def)
  have s: "\<forall>n\<in>set ([\<lparr>node_key = KEY_AQFT, node_size = 0, node_data = []\<rparr>]
      @ [\<lparr>node_key = KEY_dbrf, node_size = 8, node_data = replicate 8 0\<rparr>]
      @ [\<lparr>node_key = KEY_scal, node_size = 16, node_data = replicate 16 0\<rparr>] @ []).
      \<not> sentinel (node_key n)"
    by (simp add: sentinel_def KEY_defs)
  show ?thesis
    using region_sizes [OF d _ _ _ s] by (simp add: header_size_def)
qed


subsection \<open>The binary decoder\<close>

lemma unat_ucast_32_64 [simp]: "unat (ucast (w :: 32 word) :: 64 word) = unat w"
proof -
  have "unat w < 2 ^ 32" using unsigned_less [of w] by simp
  then have "unat w < 2 ^ 64" by (rule less_trans) simp
  then show ?thesis by (simp add: unsigned_ucast_eq take_bit_nat_eq_self)
qed

lemma unat_ucast_64_32: "unat (x :: 64 word) < 2 ^ 32 \<Longrightarrow> unat (ucast x :: 32 word) = unat x"
  by (simp add: unsigned_ucast_eq take_bit_nat_eq_self)

lemma clamp_size_le: "(ucast (clamp_size size0 len1) :: 64 word) \<le> len1"
proof (cases "ucast size0 > len1")
  case True
  then have "unat len1 < unat size0" by (simp add: word_less_nat_alt)
  moreover have "unat size0 < 2 ^ 32" using unsigned_less [of size0] by simp
  ultimately have "unat len1 < 2 ^ 32" by simp
  then have "unat (ucast (ucast len1 :: 32 word) :: 64 word) = unat len1"
    by (simp add: unat_ucast_64_32)
  then show ?thesis using True by (simp add: word_le_nat_alt clamp_size_def)
next
  case False
  then have "clamp_size size0 len1 = size0" by (simp add: clamp_size_def)
  then show ?thesis using False by (simp add: not_less)
qed

lemma fixup_block_fault: "fixup_block le k sz avail = Inl flt \<Longrightarrow> flt = Out_of_bounds"
  by (auto simp: fixup_block_def fixup_data_def split: prod.splits option.splits sum.splits if_splits)

text \<open>One iteration of the loop, with the lets unfolded.\<close>

lemma parse_block_step:
  assumes "len \<noteq> 0" and "p + 8 \<le> length mem"
  shows "parse_block le mem p len =
    (let k = host_u32 le (endian_fixup le (take 4 (drop p mem)));
         size0 = host_u32 le (endian_fixup le (take 4 (drop (p + 4) mem)));
         sz = clamp_size size0 (len - 8);
         d1 = (if ucast size0 > len - 8 then [Block_size_truncated k size0 (len - 8)] else [])
     in if superblock k then
          (case parse_block le mem (p + 8) (ucast sz) of
             Inl flt \<Rightarrow> Inl flt
           | Inr (sub, d2) \<Rightarrow>
               (case parse_block le mem (p + 8 + unat sz) (len - 8 - ucast sz) of
                  Inl flt \<Rightarrow> Inl flt
                | Inr (rest, d3) \<Rightarrow>
                    Inr (\<lparr>node_key = k, node_size = sz, node_data = []\<rparr> # sub @ rest,
                         d1 @ d2 @ d3)))
        else
          (case fixup_block le k sz (drop (p + 8) mem) of
             Inl flt \<Rightarrow> Inl flt
           | Inr (err, dat, d2) \<Rightarrow>
               (case parse_block le mem (p + 8 + unat sz) (len - 8 - ucast sz) of
                  Inl flt \<Rightarrow> Inl flt
                | Inr (rest, d3) \<Rightarrow>
                    Inr (\<lparr>node_key = k, node_size = sz, node_data = dat\<rparr> # rest,
                         d1 @ d2 @ d3))))"
  using assms
  by (subst parse_block.simps) (simp add: Let_def clamp_size_def)

lemma parse_block_fault: "parse_block le mem p len = Inl flt \<Longrightarrow> flt = Out_of_bounds"
proof (induction "length mem - p" arbitrary: p len flt rule: less_induct)
  case less
  show ?case
  proof (cases "len = 0 \<or> length mem < p + 8")
    case True
    then show ?thesis using less.prems by (auto simp: parse_block.simps split: if_splits)
  next
    case False
    then have s: "len \<noteq> 0" "p + 8 \<le> length mem" by auto
    have ih: "\<And>q l f. p + 8 \<le> q \<Longrightarrow> parse_block le mem q l = Inl f \<Longrightarrow> f = Out_of_bounds"
    proof -
      fix q l f assume "p + 8 \<le> q" and r: "parse_block le mem q l = Inl f"
      then have "length mem - q < length mem - p" using s by linarith
      then show "f = Out_of_bounds" using less.hyps r by blast
    qed
    from less.prems show ?thesis
      unfolding parse_block_step [OF s] Let_def
      by (auto split: if_splits sum.splits prod.splits
          dest: fixup_block_fault ih [of "p + 8", simplified] ih [rotated])
  qed
qed

lemma parse_block_next_fault:
  assumes "len \<noteq> 0" and "p + 8 \<le> length mem"
    and "\<And>sz :: 32 word. unat sz \<le> unat (len - 8) \<Longrightarrow> (ucast sz :: 64 word) \<le> len - 8 \<Longrightarrow>
           parse_block le mem (p + 8 + unat sz) (len - 8 - ucast sz) = Inl Out_of_bounds"
  shows "parse_block le mem p len = Inl Out_of_bounds"
proof -
  define size0 where "size0 = host_u32 le (endian_fixup le (take 4 (drop (p + 4) mem)))"
  define sz where "sz = clamp_size size0 (len - 8)"
  have szle: "(ucast sz :: 64 word) \<le> len - 8"
    unfolding sz_def by (rule clamp_size_le)
  then have "unat sz \<le> unat (len - 8)" by (simp add: word_le_nat_alt)
  then have nxt: "parse_block le mem (p + 8 + unat sz) (len - 8 - ucast sz) = Inl Out_of_bounds"
    using assms(3) szle by blast
  show ?thesis
    unfolding parse_block_step [OF assms(1,2)] Let_def
    using nxt
    by (auto simp: sz_def size0_def split: sum.splits prod.splits
        dest: fixup_block_fault parse_block_fault)
qed

lemma parse_block_overrun:
  "length mem - p < unat len \<Longrightarrow> (p \<le> length mem \<Longrightarrow> length mem - p + 2 ^ 32 \<le> unat len) \<Longrightarrow>
   parse_block le mem p len = Inl Out_of_bounds"
proof (induction "length mem - p" arbitrary: p len rule: less_induct)
  case less
  have len0: "len \<noteq> 0" using less.prems(1) by auto
  show ?case
  proof (cases "length mem < p + 8")
    case True
    then show ?thesis using len0 by (simp add: parse_block.simps)
  next
    case False
    then have p8: "p + 8 \<le> length mem" by simp
    have big: "length mem - p + 2 ^ 32 \<le> unat len" using less.prems(2) p8 by simp
    have l8: "8 \<le> unat len" using False less.prems by linarith
    then have "8 \<le> len" by (simp add: word_le_nat_alt)
    then have ul1: "unat (len - 8) = unat len - 8" by (simp add: unat_sub)
    show ?thesis
    proof (rule parse_block_next_fault [OF len0 p8])
      fix sz :: "32 word"
      assume a: "unat sz \<le> unat (len - 8)" and b: "(ucast sz :: 64 word) \<le> len - 8"
      have ul2: "unat (len - 8 - ucast sz) = unat len - 8 - unat sz"
        using b ul1 by (simp add: unat_sub)
      have s32: "unat sz < 2 ^ 32" using unsigned_less [of sz] by simp
      have m: "length mem - (p + 8 + unat sz) < length mem - p" using p8 by linarith
      have o1: "length mem - (p + 8 + unat sz) < unat (len - 8 - ucast sz)"
        using ul2 big p8 s32 by linarith
      have o2: "p + 8 + unat sz \<le> length mem \<Longrightarrow>
          length mem - (p + 8 + unat sz) + 2 ^ 32 \<le> unat (len - 8 - ucast sz)"
        using ul2 big p8 by linarith
      show "parse_block le mem (p + 8 + unat sz) (len - 8 - ucast sz) = Inl Out_of_bounds"
        using less.hyps [OF m o1 o2] by simp
    qed
  qed
qed

text \<open>
  C10 (the code does not do what the claim says). When the counter \<open>length\<close> is not
  zero but smaller than the 8 bytes of a header, \<open>parse_block\<close> reads the header all the
  same, the subtraction wraps the counter around to almost \<open>2^64\<close>, and the loop goes on
  over whatever follows until it reads behind the end of the file buffer: the decoder
  does not come back with a list, it leaves the buffer.
\<close>

theorem parse_block_short_remainder:
  assumes "0 < unat len" and "unat len < 8" and "length mem < 2 ^ 63"
  shows "parse_block le mem p len = Inl Out_of_bounds"
proof (cases "length mem < p + 8")
  case True
  then show ?thesis using assms(1) by (auto simp: parse_block.simps)
next
  case False
  then have p8: "p + 8 \<le> length mem" by simp
  have len0: "len \<noteq> 0" using assms(1) by auto
  have "\<not> 8 \<le> len" using assms(2) by (simp add: word_le_nat_alt)
  then have wrap: "unat (len - 8) = 2 ^ 64 + unat len - 8"
    using unat_sub_if_size [of len 8] by (simp add: word_le_nat_alt word_size)
  show ?thesis
  proof (rule parse_block_next_fault [OF len0 p8])
    fix sz :: "32 word"
    assume a: "unat sz \<le> unat (len - 8)" and b: "(ucast sz :: 64 word) \<le> len - 8"
    have ul2: "unat (len - 8 - ucast sz) = 2 ^ 64 + unat len - 8 - unat sz"
      using b wrap by (simp add: unat_sub)
    have s32: "unat sz < 2 ^ 32" using unsigned_less [of sz] by simp
    have o1: "length mem - (p + 8 + unat sz) < unat (len - 8 - ucast sz)"
      using ul2 assms s32 by simp
    have o2: "p + 8 + unat sz \<le> length mem \<Longrightarrow>
          length mem - (p + 8 + unat sz) + 2 ^ 32 \<le> unat (len - 8 - ucast sz)"
      using ul2 assms s32 by simp
    show "parse_block le mem (p + 8 + unat sz) (len - 8 - ucast sz) = Inl Out_of_bounds"
      using parse_block_overrun [OF o1 o2] by simp
  qed
qed


theorem parse_block_short_remainder_witness:
  "0 < unat (3 :: 64 word) \<and> unat (3 :: 64 word) < 8
   \<and> length [0x41, 0x51, 0x46, 0x54, 0, 0, 0, 3, 0x48, 0x45, 0x41, 0x44, 0, 0, 0, 0 :: byte] < 2 ^ 63
   \<and> parse_block True [0x41, 0x51, 0x46, 0x54, 0, 0, 0, 3, 0x48, 0x45, 0x41, 0x44, 0, 0, 0, 0] 8 3
       = Inl Out_of_bounds"
  using parse_block_short_remainder
    [of 3 "[0x41, 0x51, 0x46, 0x54, 0, 0, 0, 3, 0x48, 0x45, 0x41, 0x44, 0, 0, 0, 0]" True 8]
  by simp

text \<open>The clamp itself works for a final block that is not a superblock: the node gets
  the bytes that are left, the truncation is reported, and the decoder returns.\<close>

lemma fixup_widths_le:
  "sizeof_block f \<le> unat sz \<Longrightarrow> sum_list (fixup_widths f sz) \<le> unat sz"
  by (cases f) (auto simp: fixup_widths_def sizeof_block_def sum_list_replicate)

lemma length_fixup_fields: "length (fixup_fields le ws bs) = length bs"
proof (induction ws arbitrary: bs)
  case Nil
  then show ?case by simp
next
  case (Cons w ws)
  have "length (endian_fixup le (take w bs)) = length (take w bs)"
    by (simp add: endian_fixup_def swapcopy_def)
  then show ?case using Cons.IH [of "drop w bs"] by simp
qed

lemma fixup_block_in_bounds:
  assumes "unat sz \<le> length avail"
  shows "\<exists>err dat d. fixup_block le k sz avail = Inr (err, dat, d) \<and> length dat = unat sz"
proof (cases "find_block_functions k")
  case (Pair fo d)
  show ?thesis
  proof (cases fo)
    case None
    then show ?thesis using Pair assms by (simp add: fixup_block_def)
  next
    case (Some f)
    show ?thesis
    proof (cases "unat sz < sizeof_block f")
      case True
      then show ?thesis using Pair Some assms by (simp add: fixup_block_def fixup_data_def)
    next
      case False
      then have "sum_list (fixup_widths f sz) \<le> length avail"
        using fixup_widths_le [of f sz] assms by simp
      then show ?thesis using Pair Some assms False
        by (simp add: fixup_block_def fixup_data_def length_fixup_fields)
    qed
  qed
qed

lemma parse_block_final_leaf:
  assumes "length mem = p + 8 + r" and "unat len = 8 + r"
    and "\<not> superblock (host_u32 le (endian_fixup le (take 4 (drop p mem))))"
    and "r < unat (host_u32 le (endian_fixup le (take 4 (drop (p + 4) mem))))"
  shows "\<exists>dat d. parse_block le mem p len =
           Inr ([\<lparr>node_key = host_u32 le (endian_fixup le (take 4 (drop p mem))),
                  node_size = of_nat r, node_data = dat\<rparr>],
                Block_size_truncated (host_u32 le (endian_fixup le (take 4 (drop p mem))))
                  (host_u32 le (endian_fixup le (take 4 (drop (p + 4) mem)))) (of_nat r) # d)
         \<and> length dat = r"
proof -
  define k where "k = host_u32 le (endian_fixup le (take 4 (drop p mem)))"
  define size0 where "size0 = host_u32 le (endian_fixup le (take 4 (drop (p + 4) mem)))"
  have len0: "len \<noteq> 0" using assms(2) by auto
  have p8: "p + 8 \<le> length mem" using assms(1) by simp
  have "8 \<le> len" using assms(2) by (simp add: word_le_nat_alt)
  then have ul: "unat (len - 8) = r" using assms(2) by (simp add: unat_sub)
  have "unat size0 < 2 ^ 32" using unsigned_less [of size0] by simp
  then have r32: "r < 2 ^ 32" using assms(4) by (simp add: size0_def)
  then have r64: "r < 2 ^ 64" by (rule less_trans) simp
  have ur64: "unat (of_nat r :: 64 word) = r" using r64 by (simp add: unat_of_nat)
  have ur: "unat (of_nat r :: 32 word) = r" using r32 by (simp add: unat_of_nat)
  have l1: "len - 8 = of_nat r" using ul ur64 by (simp add: word_unat_eq_iff)
  have gt: "(ucast size0 :: 64 word) > of_nat r"
    using assms(4) ur64 by (simp add: word_less_nat_alt size0_def)
  have uc: "(ucast (of_nat r :: 64 word) :: 32 word) = of_nat r"
    using ur ur64 unat_ucast_64_32 [of "of_nat r"] r32 by (simp add: word_unat_eq_iff)
  have sz: "clamp_size size0 (len - 8) = of_nat r"
    using gt l1 uc by (simp add: clamp_size_def)
  have "unat (of_nat r :: 32 word) \<le> length (drop (p + 8) mem)" using ur assms(1) by simp
  then obtain err dat d where fb: "fixup_block le k (of_nat r) (drop (p + 8) mem) = Inr (err, dat, d)"
    and ld: "length dat = r"
    using fixup_block_in_bounds [of "of_nat r" "drop (p + 8) mem" le k] ur by auto
  have "(ucast (of_nat r :: 32 word) :: 64 word) = of_nat r"
    using ur ur64 by (simp add: word_unat_eq_iff)
  then have z: "len - 8 - ucast (of_nat r :: 32 word) = 0"
    using l1 by simp
  have nx: "parse_block le mem (p + 8 + unat (of_nat r :: 32 word)) 0 = Inr ([], [])"
    by (simp add: parse_block.simps)
  show ?thesis
    unfolding parse_block_step [OF len0 p8] Let_def
    using assms(3) sz fb z nx gt l1 ld
    by (simp add: k_def [symmetric] size0_def [symmetric])
qed


text \<open>
  C5 (the code does not do what the claim says). The file is the root header declaring
  100 bytes of payload, followed by 3 bytes. The size is clamped to 3, but the root is a
  superblock, so \<open>parse_block\<close> is called on the 3 bytes and reads a header of 8 bytes
  there, behind the end of the buffer.
\<close>

theorem truncated_superblock_reads_out_of_bounds:
  "parse_file True [0x41, 0x51, 0x46, 0x54, 0, 0, 0, 100, 1, 2, 3] = Inl Out_of_bounds
   \<and> parse_file False [0x41, 0x51, 0x46, 0x54, 0, 0, 0, 100, 1, 2, 3] = Inl Out_of_bounds"
  by code_simp


subsection \<open>Reading lines\<close>

lemma fgets_chars_line:
  "NL \<notin> set l \<Longrightarrow> length l < m \<Longrightarrow> fgets_chars m (l @ NL # rest) = (l @ [NL], rest)"
proof (induction l arbitrary: m)
  case Nil
  then show ?case by simp
next
  case (Cons c l)
  then have "fgets_chars (m - 1) (l @ NL # rest) = (l @ [NL], rest)"
    by (intro Cons.IH) auto
  with Cons.prems show ?case by auto
qed

lemma fgets_line:
  "NL \<notin> set l \<Longrightarrow> length l < n - 1 \<Longrightarrow> fgets n (l @ NL # rest) = Some (l @ [NL], rest)"
  by (simp add: fgets_def fgets_chars_line)

lemma fgets_textline:
  "textline l \<Longrightarrow> fgets SIZE_LINE (l @ NL # rest) = Some (l @ [NL], rest)"
  by (simp add: textline_def fgets_line)

lemma chomp_line:
  "NL \<notin> set l \<Longrightarrow> NUL \<notin> set l \<Longrightarrow> chomp (l @ NL # x) = l"
  by (induction l) (auto simp: chomp_def)

lemma chomp_textline: "textline l \<Longrightarrow> chomp (l @ [NL]) = l"
  by (simp add: textline_def chomp_line)

lemma length_store_line:
  "length line = SIZE_LINE \<Longrightarrow> length cs < SIZE_LINE \<Longrightarrow>
   length (store_line line cs) = SIZE_LINE"
  by (simp add: store_line_def Let_def)

lemma takeWhile_line:
  "NL \<notin> set l \<Longrightarrow> NUL \<notin> set l \<Longrightarrow>
   takeWhile (\<lambda>c. c \<noteq> NUL \<and> c \<noteq> NL) (l @ NL # zs) = l"
  by (induction l) auto

lemma store_line_textline:
  assumes "textline l" and "length line = SIZE_LINE"
  shows "\<exists>zs. store_line line (l @ [NL]) = l @ NUL # NUL # zs"
proof -
  have l: "NL \<notin> set l" "NUL \<notin> set l" "length l < SIZE_LINE - 1"
    using assms(1) by (simp_all add: textline_def)
  define b0 where "b0 = (l @ [NL]) @ [NUL] @ drop (length (l @ [NL]) + 1) line"
  define b where "b = b0[SIZE_LINE - 1 := NUL]"
  have lb0: "length b0 = SIZE_LINE" using l(3) assms(2) by (simp add: b0_def)
  then have lb: "length b = SIZE_LINE" by (simp add: b_def)
  have t0: "take (length l + 1) b0 = l @ [NL]" by (simp add: b0_def)
  have "length l + 1 \<le> SIZE_LINE - 1" using l(3) by simp
  then have t: "take (length l + 1) b = l @ [NL]"
    unfolding b_def using t0 by (simp only: take_update_cancel)
  have n0: "b0 ! (length l + 1) = NUL" by (simp add: b0_def nth_append)
  have n: "b ! (length l + 1) = NUL"
  proof (cases "length l + 1 = SIZE_LINE - 1")
    case True
    then show ?thesis using lb0 by (simp add: b_def SIZE_LINE_def)
  next
    case False
    then show ?thesis using n0 by (simp add: b_def)
  qed
  have "length l + 1 < length b" using lb l(3) by simp
  then have "b = take (length l + 1) b @ b ! (length l + 1) # drop (Suc (length l + 1)) b"
    by (rule id_take_nth_drop)
  then have beq: "b = l @ NL # NUL # drop (length l + 2) b"
    using t n by simp
  define zs where "zs = drop (length l + 2) b"
  have beq': "b = l @ NL # NUL # zs" using beq by (simp add: zs_def)
  have i: "length (takeWhile (\<lambda>c. c \<noteq> NUL \<and> c \<noteq> NL) b) = length l"
    using chomp_line [OF l(1,2), of "NUL # zs"] beq' by (simp add: chomp_def)
  have "store_line line (l @ [NL]) = (if length l < length b \<and> b ! length l = NL then b[length l := NUL] else b)"
    unfolding store_line_def Let_def b_def [symmetric] b0_def [symmetric] i by simp
  also have "\<dots> = b[length l := NUL]"
  proof -
    have "length l < length b" using lb l(3) by simp
    moreover have "b ! length l = NL" by (subst beq') (simp add: nth_append)
    ultimately show ?thesis by simp
  qed
  also have "\<dots> = l @ NUL # NUL # zs"
    by (subst beq') simp
  finally show ?thesis by blast
qed

lemma cstring_store_line:
  assumes "textline l" and "length line = SIZE_LINE"
  shows "cstring (store_line line (l @ [NL])) = l"
proof -
  have "NUL \<notin> set l" using assms(1) by (simp add: textline_def)
  then have "takeWhile (\<lambda>c. c \<noteq> NUL) (l @ NUL # zs) = l" for zs
    by (induction l) auto
  then show ?thesis
    using store_line_textline [OF assms] by (auto simp: cstring_def)
qed

lemma take4_store_line:
  assumes "textline l" and "length line = SIZE_LINE" and "1 < length l"
  shows "take 4 (store_line line (l @ [NL])) = take 4 (l @ [NUL, NUL])"
proof -
  obtain zs where "store_line line (l @ [NL]) = l @ NUL # NUL # zs"
    using store_line_textline [OF assms(1,2)] by blast
  moreover have "4 - length l = 0 \<or> 4 - length l = 1 \<or> 4 - length l = 2"
    using assms(3) by linarith
  ultimately show ?thesis by auto
qed

lemma unlines_Nil [simp]: "unlines [] = []" by (simp add: unlines_def)
lemma unlines_Cons: "unlines (l # ls) = l @ NL # unlines ls" by (simp add: unlines_def)

lemma fgets_Nil [simp]: "fgets n [] = None" by (simp add: fgets_def)

lemma fgets_unlines:
  "textline l \<Longrightarrow> fgets SIZE_LINE (unlines (l # ls)) = Some (l @ [NL], unlines ls)"
  by (simp add: unlines_Cons fgets_textline)

lemma host_u32_fixup: "length bs = 4 \<Longrightarrow> host_u32 le (endian_fixup le bs) = word_rcat bs"
  by (simp add: host_u32_def endian_fixup_def swapcopy_def)

lemma rsgen_loop_eof: "rsgen_loop L le line c cfg list d [] = (0, list, c, d)"
  by (subst rsgen_loop.simps) simp

lemma rsgen_loop_skip:
  assumes "textline l" and "length line = SIZE_LINE" and "length l \<le> 1 \<or> CHR '':'' \<in> set l"
  shows "rsgen_loop L le line c cfg list d (unlines (l # ls)) =
         rsgen_loop L le (next_line line l) (c + 1) cfg list d (unlines ls)"
  using assms(3) unfolding next_line_def
  by (subst rsgen_loop.simps)
     (auto simp: fgets_unlines [OF assms(1)] cstring_store_line [OF assms(1,2)] Let_def)

lemma rsgen_loop_block:
  assumes "textline l" and "length line = SIZE_LINE" and "1 < length l" and "CHR '':'' \<notin> set l"
  shows "rsgen_loop L le line c cfg list d (unlines (l # ls)) =
     (case find_block_functions (key_of_line l) of
        (None, dd) \<Rightarrow> (1, list, c + 1, d @ dd @ [Cannot_gen_block (key_of_line l)])
      | (Some f, dd) \<Rightarrow>
          (case make_node f L le cfg (unlines ls) of
             (err, newnode, cfg1, infile2, d2) \<Rightarrow>
               if err \<noteq> 0
               then (1, list @ [newnode], c + 1,
                     d @ dd @ d2 @ [Error_in_block (key_of_line l) (c + 1)])
               else rsgen_loop L le (next_line line l) (c + 1) cfg1 (list @ [newnode])
                      (d @ dd @ d2) infile2))"
proof -
  have k: "host_u32 le (endian_fixup le (map of_char (take 4 (store_line line (l @ [NL])))))
             = key_of_line l"
    unfolding take4_store_line [OF assms(1,2,3)] key_of_line_def
    using assms(3) by (intro host_u32_fixup) simp
  show ?thesis
    using assms(3,4) unfolding next_line_def
    by (subst rsgen_loop.simps)
       (simp add: fgets_unlines [OF assms(1)] cstring_store_line [OF assms(1,2)] Let_def k)
qed

lemma length_next_line [simp]:
  "textline l \<Longrightarrow> length line = SIZE_LINE \<Longrightarrow> length (next_line line l) = SIZE_LINE"
  unfolding next_line_def
  by (rule length_store_line) (simp_all add: textline_def SIZE_LINE_def)

lemma find_block_functions_known:
  "find_block_functions KEY_AQFT = (Some F_aqft, [])"
  "find_block_functions KEY_HEAD = (Some F_head, [])"
  "find_block_functions KEY_sign = (Some F_sign, [])"
  "find_block_functions KEY_mcda = (Some F_mcda, [])"
  "find_block_functions KEY_dbrf = (Some F_dbrf, [])"
  "find_block_functions KEY_cnst = (Some F_cnst, [])"
  "find_block_functions KEY_hasi = (Some F_hasi, [])"
  "find_block_functions KEY_swep = (Some F_swep, [])"
  "find_block_functions KEY_fbin = (Some F_fbin, [])"
  "find_block_functions KEY_BODY = (Some F_body, [])"
  "find_block_functions KEY_rtag = (Some F_rtag, [])"
  "find_block_functions KEY_gps1 = (Some F_gps1, [])"
  "find_block_functions KEY_indx = (Some F_indx, [])"
  "find_block_functions KEY_scal = (Some F_scal, [])"
  "find_block_functions KEY_afft = (Some F_afft, [])"
  "find_block_functions KEY_ifft = (Some F_ifft, [])"
  "find_block_functions KEY_END = (Some F_end, [])"
  by (simp_all add: find_block_functions_def Global_function_dictionary_def KEY_defs)

lemma key_of_line_known:
  "key_of_line ''AQFT'' = KEY_AQFT" "key_of_line ''HEAD'' = KEY_HEAD"
  "key_of_line ''BODY'' = KEY_BODY" "key_of_line ''END '' = KEY_END"
  "key_of_line ''rtag'' = KEY_rtag" "key_of_line ''indx'' = KEY_indx"
  "key_of_line ''mcda'' = KEY_mcda" "key_of_line ''cnst'' = KEY_cnst"
  by (simp_all add: key_of_line_def KEY_defs word_rcat_def)

lemma mk_aqft [simp]: "make_node F_aqft L le cfg fd = (0, \<lparr>node_key = KEY_AQFT, node_size = 0, node_data = []\<rparr>, cfg, fd, [])"
  by (simp add: make_node_def make_node_aqft_def make_superblock_def)
lemma mk_head [simp]: "make_node F_head L le cfg fd = (0, \<lparr>node_key = KEY_HEAD, node_size = 0, node_data = []\<rparr>, cfg, fd, [])"
  by (simp add: make_node_def make_node_head_def make_superblock_def)
lemma mk_body [simp]: "make_node F_body L le cfg fd = (0, \<lparr>node_key = KEY_BODY, node_size = 0, node_data = []\<rparr>, cfg, fd, [])"
  by (simp add: make_node_def make_node_body_def make_superblock_def)
lemma mk_end [simp]: "make_node F_end L le cfg fd = (0, \<lparr>node_key = KEY_END, node_size = 0, node_data = []\<rparr>, cfg, fd, [])"
  by (simp add: make_node_def make_node_end_def make_superblock_def)

lemma read_parameter_unlines:
  assumes "textline l"
  shows "read_parameter L le (unlines (l # ls)) fmt =
     (if l = [] then (1, [], [Cannot_find_parameter (fst fmt)])
      else (case sscanf L le l fmt of
              (count, stored) \<Rightarrow>
                if count \<noteq> 0 then (0, stored, []) else read_parameter L le (unlines ls) fmt))"
  by (subst read_parameter.simps)
     (simp add: fgets_unlines [OF assms] chomp_textline [OF assms])


subsection \<open>Unknown type codes\<close>

lemma superblock_known: "superblock k \<Longrightarrow> \<not> unknown_code k"
  by (auto simp: superblock_def unknown_code_def find_block_functions_known)

lemma fixup_block_unknown:
  "unknown_code k \<Longrightarrow> fixup_block le k sz avail = Inr (err, dat, d) \<Longrightarrow>
   Cannot_fixup_block k \<in> set d"
  by (auto simp: fixup_block_def unknown_code_def split: prod.splits option.splits)

lemma parse_block_reports_unknown:
  "parse_block le mem p len = Inr (list, d) \<Longrightarrow> n \<in> set list \<Longrightarrow>
   unknown_code (node_key n) \<Longrightarrow> Cannot_fixup_block (node_key n) \<in> set d"
proof (induction "length mem - p" arbitrary: p len list d rule: less_induct)
  case less
  show ?case
  proof (cases "len = 0 \<or> length mem < p + 8")
    case True
    then show ?thesis using less.prems by (auto simp: parse_block.simps split: if_splits)
  next
    case False
    then have s: "len \<noteq> 0" "p + 8 \<le> length mem" by auto
    have ih: "\<And>q l ns ds. p + 8 \<le> q \<Longrightarrow> parse_block le mem q l = Inr (ns, ds) \<Longrightarrow>
                n \<in> set ns \<Longrightarrow> Cannot_fixup_block (node_key n) \<in> set ds"
    proof -
      fix q l ns ds
      assume "p + 8 \<le> q" and r: "parse_block le mem q l = Inr (ns, ds)" and m: "n \<in> set ns"
      then have "length mem - q < length mem - p" using s by linarith
      then show "Cannot_fixup_block (node_key n) \<in> set ds"
        using less.hyps r m less.prems(3) by blast
    qed
    define k where "k = host_u32 le (endian_fixup le (take 4 (drop p mem)))"
    define size0 where "size0 = host_u32 le (endian_fixup le (take 4 (drop (p + 4) mem)))"
    define sz where "sz = clamp_size size0 (len - 8)"
    show ?thesis
    proof (cases "superblock k")
      case True
      then obtain sub d1 d2 rest d3 where
        a: "parse_block le mem (p + 8) (ucast sz) = Inr (sub, d2)" and
        b: "parse_block le mem (p + 8 + unat sz) (len - 8 - ucast sz) = Inr (rest, d3)" and
        c: "list = \<lparr>node_key = k, node_size = sz, node_data = []\<rparr> # sub @ rest" and
        e: "d = d1 @ d2 @ d3"
        using less.prems(1) unfolding parse_block_step [OF s] Let_def
        by (simp add: k_def size0_def sz_def split: sum.splits prod.splits) blast
      have "n \<noteq> \<lparr>node_key = k, node_size = sz, node_data = []\<rparr>"
        using True superblock_known less.prems(3) by auto
      then have "n \<in> set sub \<or> n \<in> set rest" using less.prems(2) c by auto
      then show ?thesis
        using ih [OF _ a] ih [OF _ b] e by auto
    next
      case False
      then obtain err dat d1 d2 rest d3 where
        a: "fixup_block le k sz (drop (p + 8) mem) = Inr (err, dat, d2)" and
        b: "parse_block le mem (p + 8 + unat sz) (len - 8 - ucast sz) = Inr (rest, d3)" and
        c: "list = \<lparr>node_key = k, node_size = sz, node_data = dat\<rparr> # rest" and
        e: "d = d1 @ d2 @ d3"
        using less.prems(1) unfolding parse_block_step [OF s] Let_def
        by (simp add: k_def size0_def sz_def split: sum.splits prod.splits) blast
      show ?thesis
      proof (cases "n \<in> set rest")
        case True
        then show ?thesis using ih [OF _ b] e by auto
      next
        case False
        then have "node_key n = k" using less.prems(2) c by auto
        then show ?thesis using fixup_block_unknown [OF _ a] less.prems(3) e by auto
      qed
    qed
  qed
qed

lemma dump_loop_unknown:
  "(\<exists>n\<in>set list. unknown_code (node_key n)) \<Longrightarrow>
   dump_loop L le list config False = Inr (err, out, d) \<Longrightarrow> err = 1"
proof (induction list arbitrary: config err out d)
  case Nil
  then show ?case by simp
next
  case (Cons n list)
  show ?case
  proof (cases "unknown_code (node_key n)")
    case True
    then show ?thesis using Cons.prems(2)
      by (auto simp: unknown_code_def split: prod.splits option.splits)
  next
    case False
    then have "\<exists>m\<in>set list. unknown_code (node_key m)" using Cons.prems(1) by auto
    then show ?thesis using Cons.IH Cons.prems(2)
      by (auto split: prod.splits option.splits sum.splits if_splits)
  qed
qed

lemma rs_write_unknown:
  "\<forall>m\<in>set pre. \<not> unknown_code (node_key m) \<Longrightarrow> unknown_code (node_key n) \<Longrightarrow>
   rs_write le (pre @ n # post) = Inr (err, bs, d) \<Longrightarrow>
   err = 1 \<and> Cannot_write_block (node_key n) \<in> set d"
proof (induction pre arbitrary: err bs d)
  case Nil
  then show ?case
    by (auto simp: unknown_code_def split: prod.splits option.splits)
next
  case (Cons m pre)
  obtain f dd where f: "find_block_functions (node_key m) = (Some f, dd)"
    using Cons.prems(1) by (cases "find_block_functions (node_key m)") (auto simp: unknown_code_def)
  from Cons.prems(3) f obtain e1 b1 d1 where
    "rs_write le (pre @ n # post) = Inr (e1, b1, d1)" and "err = e1" and "set d1 \<subseteq> set d"
    by (auto simp: gen_block_def split: sum.splits prod.splits if_splits)
  then show ?case using Cons.IH [of e1 b1 d1] Cons.prems(1,2) by auto
qed


subsection \<open>Unknown type codes abort the conversion\<close>

lemma textline_simps [simp]:
  "textline []" "textline ''AQFT''" "textline ''HEAD''" "textline ''BODY''" "textline ''END ''"
  "textline ''rtag''" "textline ''indx''" "textline ''mcda''" "textline ''cnst''" "textline ''XXXX''"
  by (simp_all add: textline_def NL_def NUL_def SIZE_LINE_def)

lemma rsgen_loop_failed:
  "rsgen_loop L le line0 0 config0 [] [] infile = (1, list, c, d) \<Longrightarrow>
   rsgen L le line0 infile = Inr (1, [], d)"
  by (simp add: rsgen_def)

text \<open>
  C7, as stated, fails in the decode direction: in header-only mode \<open>dump_list\<close> returns
  0 when it reaches the body sentinel, so a block with an unknown code behind it is never
  looked up; \<open>rsdump\<close> returns 0 and the header text is written.
\<close>

theorem unknown_code_header_only_counterexample:
  "unknown_code 0x58585858
   \<and> rsdump libc_zero True unknown_in_body True =
       Inr (0, unlines [''AQFT'', [], ''HEAD'', [], ''rtag'', ''rtag:1'', []],
            [Cannot_locate_functions 0x58585858, Cannot_fixup_block 0x58585858])"
  by code_simp

text \<open>
  C7, amended. Let \<open>k\<close> be a type code without a registry entry. (1) Decoding in full
  mode a file that passes the header check and in which \<open>parse_file\<close> finds a block with
  the code \<open>k\<close>: whenever \<open>rsdump\<close> returns, it returns the error 1, and the messages
  of the run name \<open>k\<close> (\<open>Cannot fixup block\<close>). (2) Parsing text: whenever the loop of
  \<open>rsgen\<close> reads a line of more than one character without a colon whose first four
  bytes are \<open>k\<close>, it returns the error 1 at once with \<open>Cannot gen block\<close> naming \<open>k\<close>,
  and (3) \<open>rsgen\<close> then returns 1 without having written a byte. (4) Encoding: when the
  first block of a list whose code is unknown has the code \<open>k\<close>, \<open>rs_write\<close>, whenever
  it returns, returns the error 1 with \<open>Cannot write block\<close> naming \<open>k\<close>.
\<close>

theorem unknown_type_code_is_fatal:
  assumes "unknown_code k"
  shows
    "(fst (read_binary_file le infile) = 0 \<and> parse_file le infile = Inr (list, d1)
        \<and> k \<in> node_key ` set list
      \<longrightarrow> (\<forall>err out d. rsdump L le infile False = Inr (err, out, d)
             \<longrightarrow> err = 1 \<and> Cannot_fixup_block k \<in> set d))
   \<and> (textline l \<and> length line = SIZE_LINE \<and> 1 < length l \<and> CHR '':'' \<notin> set l
        \<and> key_of_line l = k
      \<longrightarrow> (\<exists>d'. rsgen_loop L le line c config nodes d (unlines (l # ls)) = (1, nodes, c + 1, d')
                \<and> Cannot_gen_block k \<in> set d'))
   \<and> (\<forall>line0 infile' nodes' c' d'.
         rsgen_loop L le line0 0 config0 [] [] infile' = (1, nodes', c', d')
         \<longrightarrow> rsgen L le line0 infile' = Inr (1, [], d'))
   \<and> ((\<forall>m\<in>set pre. \<not> unknown_code (node_key m)) \<and> node_key n = k
      \<longrightarrow> (\<forall>err bs d. rs_write le (pre @ n # post) = Inr (err, bs, d)
             \<longrightarrow> err = 1 \<and> Cannot_write_block k \<in> set d))"
proof (intro conjI impI allI)
  fix err out d
  assume a: "fst (read_binary_file le infile) = 0 \<and> parse_file le infile = Inr (list, d1)
        \<and> k \<in> node_key ` set list"
    and r: "rsdump L le infile False = Inr (err, out, d)"
  obtain d0 where rb: "read_binary_file le infile = (0, d0)"
    using a by (cases "read_binary_file le infile") auto
  obtain n where n: "n \<in> set list" "node_key n = k" using a by auto
  have pb: "parse_block le infile 0 (of_nat (length infile)) = Inr (list, d1)"
    using a by (auto simp: parse_file_def split: if_splits)
  have fx: "Cannot_fixup_block k \<in> set d1"
    using parse_block_reports_unknown [OF pb n(1)] assms n(2) by simp
  from r rb a obtain d2 where dl: "dump_list L le list False = Inr (err, out, d2)"
    and d: "d = d0 @ d1 @ d2"
    by (auto simp: rsdump_def split: sum.splits prod.splits)
  have "err = 1"
    using dump_loop_unknown [of list L le config0 err out d2] dl n assms
    by (auto simp: dump_list_def)
  then show "err = 1" .
  show "Cannot_fixup_block k \<in> set d" using fx d by simp
next
  assume a: "textline l \<and> length line = SIZE_LINE \<and> 1 < length l \<and> CHR '':'' \<notin> set l
        \<and> key_of_line l = k"
  obtain dd where f: "find_block_functions k = (None, dd)"
    using assms by (cases "find_block_functions k") (auto simp: unknown_code_def)
  have "rsgen_loop L le line c config nodes d (unlines (l # ls))
          = (1, nodes, c + 1, d @ dd @ [Cannot_gen_block k])"
    using a f by (simp add: rsgen_loop_block)
  then show "\<exists>d'. rsgen_loop L le line c config nodes d (unlines (l # ls)) = (1, nodes, c + 1, d')
                \<and> Cannot_gen_block k \<in> set d'"
    by simp
next
  fix line0 infile' nodes' c' d'
  assume "rsgen_loop L le line0 0 config0 [] [] infile' = (1, nodes', c', d')"
  then show "rsgen L le line0 infile' = Inr (1, [], d')" by (rule rsgen_loop_failed)
next
  fix err bs d
  assume a: "(\<forall>m\<in>set pre. \<not> unknown_code (node_key m)) \<and> node_key n = k"
    and r: "rs_write le (pre @ n # post) = Inr (err, bs, d)"
  have "err = 1 \<and> Cannot_write_block (node_key n) \<in> set d"
    using rs_write_unknown [OF _ _ r] a assms by simp
  then show "err = 1" "Cannot_write_block k \<in> set d" using a by simp_all
qed

lemma unknown_XXXX: "unknown_code 0x58585858"
  by (simp add: unknown_code_def find_block_functions_def Global_function_dictionary_def KEY_defs)

lemma key_XXXX: "key_of_line ''XXXX'' = 0x58585858"
  by (simp add: key_of_line_def word_rcat_def)

lemma parse_unknown_in_body:
  "parse_file True unknown_in_body =
   Inr ([\<lparr>node_key = KEY_AQFT, node_size = 40, node_data = []\<rparr>,
        \<lparr>node_key = KEY_HEAD, node_size = 12, node_data = []\<rparr>,
        \<lparr>node_key = KEY_rtag, node_size = 4, node_data = [1, 0, 0, 0]\<rparr>,
        \<lparr>node_key = KEY_BODY, node_size = 12, node_data = []\<rparr>,
        \<lparr>node_key = 0x58585858, node_size = 4, node_data = [1, 2, 3, 4]\<rparr>,
        \<lparr>node_key = KEY_END, node_size = 0, node_data = []\<rparr>],
       [Cannot_locate_functions 0x58585858, Cannot_fixup_block 0x58585858])"
  by code_simp

lemma rsdump_unknown_in_body:
  "rsdump libc_zero True unknown_in_body False =
   Inr (1, unlines [''AQFT'', [], ''HEAD'', [], ''rtag'', ''rtag:1'', [], ''BODY'', []],
        [Cannot_locate_functions 0x58585858, Cannot_fixup_block 0x58585858,
         Cannot_locate_functions 0x58585858, Cannot_dump_block 0x58585858])"
  by code_simp

lemma header_unknown_in_body: "fst (read_binary_file True unknown_in_body) = 0"
  by code_simp

lemma rs_write_XXXX:
  "rs_write True ([\<lparr>node_key = KEY_AQFT, node_size = 0, node_data = []\<rparr>]
      @ \<lparr>node_key = 0x58585858, node_size = 4, node_data = [1, 2, 3, 4]\<rparr> # []) =
   Inr (1, [0x41, 0x51, 0x46, 0x54, 0, 0, 0, 0],
        [Cannot_locate_functions 0x58585858, Cannot_write_block 0x58585858])"
  by code_simp

lemma rsgen_loop_XXXX:
  "rsgen_loop libc_zero True (replicate SIZE_LINE NUL) 0 config0 [] []
     (unlines [''AQFT'', [], ''XXXX'']) =
   (1, [\<lparr>node_key = KEY_AQFT, node_size = 0, node_data = []\<rparr>], 3,
    [Cannot_locate_functions 0x58585858, Cannot_gen_block 0x58585858])"
  by (simp add: rsgen_loop_block rsgen_loop_skip key_of_line_known find_block_functions_known
      key_XXXX find_block_functions_def Global_function_dictionary_def KEY_defs)

theorem unknown_type_code_is_fatal_witness:
  "rsdump libc_zero True unknown_in_body False =
     Inr (1, unlines [''AQFT'', [], ''HEAD'', [], ''rtag'', ''rtag:1'', [], ''BODY'', []],
          [Cannot_locate_functions 0x58585858, Cannot_fixup_block 0x58585858,
           Cannot_locate_functions 0x58585858, Cannot_dump_block 0x58585858])
   \<and> rsgen_loop libc_zero True (replicate SIZE_LINE NUL) 0 config0 [] []
        (unlines [''AQFT'', [], ''XXXX'']) =
       (1, [\<lparr>node_key = KEY_AQFT, node_size = 0, node_data = []\<rparr>], 3,
        [Cannot_locate_functions 0x58585858, Cannot_gen_block 0x58585858])
   \<and> rsgen libc_zero True (replicate SIZE_LINE NUL) (unlines [''AQFT'', [], ''XXXX'']) =
       Inr (1, [], [Cannot_locate_functions 0x58585858, Cannot_gen_block 0x58585858])
   \<and> rs_write True [\<lparr>node_key = KEY_AQFT, node_size = 0, node_data = []\<rparr>,
         \<lparr>node_key = 0x58585858, node_size = 4, node_data = [1, 2, 3, 4]\<rparr>] =
       Inr (1, [0x41, 0x51, 0x46, 0x54, 0, 0, 0, 0],
            [Cannot_locate_functions 0x58585858, Cannot_write_block 0x58585858])"
proof -
  note T = unknown_type_code_is_fatal [OF unknown_XXXX,
      where le = True and L = libc_zero and infile = unknown_in_body
        and l = "''XXXX''" and line = "next_line (next_line (replicate SIZE_LINE NUL) ''AQFT'') []"
        and c = 2 and config = config0
        and nodes = "[\<lparr>node_key = KEY_AQFT, node_size = 0, node_data = []\<rparr>]"
        and d = "[]" and ls = "[]"
        and pre = "[\<lparr>node_key = KEY_AQFT, node_size = 0, node_data = []\<rparr>]"
        and n = "\<lparr>node_key = 0x58585858, node_size = 4, node_data = [1, 2, 3, 4]\<rparr>"
        and post = "[]"]
  have r3: "rsgen libc_zero True (replicate SIZE_LINE NUL) (unlines [''AQFT'', [], ''XXXX'']) =
       Inr (1, [], [Cannot_locate_functions 0x58585858, Cannot_gen_block 0x58585858])"
    using T rsgen_loop_XXXX by blast
  show ?thesis
    using rsdump_unknown_in_body rsgen_loop_XXXX r3 rs_write_XXXX by simp
qed


subsection \<open>A failed reconciliation does not stop \<open>rsgen\<close>\<close>

lemma make_rtag_7:
  "make_node F_rtag L True cfg (unlines (''rtag:7'' # ls)) =
     (0, \<lparr>node_key = KEY_rtag, node_size = 4, node_data = [7, 0, 0, 0]\<rparr>, cfg,
      unlines (''rtag:7'' # ls), [])"
  by (simp add: make_node_def make_node_rtag_def read_parameter_unlines sscanf_def convert_def
      scan_u_def scan_number_def isspace_def is_digit_def strtoul_val_def number_val_def
      digit_val_def Let_def field_def host_bytes32_def be_bytes32_def
      textline_def NL_def NUL_def SIZE_LINE_def)

lemma rsgen_loop_no_body:
  "rsgen_loop libc_zero True (replicate SIZE_LINE NUL) 0 config0 [] [] text_no_body =
   (0, [\<lparr>node_key = KEY_AQFT, node_size = 0, node_data = []\<rparr>,
        \<lparr>node_key = KEY_HEAD, node_size = 0, node_data = []\<rparr>,
        \<lparr>node_key = KEY_rtag, node_size = 4, node_data = [7, 0, 0, 0]\<rparr>,
        \<lparr>node_key = KEY_END, node_size = 0, node_data = []\<rparr>], 8, [])"
  unfolding text_no_body_def
  by (simp add: rsgen_loop_block rsgen_loop_skip rsgen_loop_eof key_of_line_known
      find_block_functions_known make_rtag_7 textline_def NL_def NUL_def SIZE_LINE_def)

lemma fixup_no_body:
  "fixup_sizes (root0 # [\<lparr>node_key = KEY_AQFT, node_size = 0, node_data = []\<rparr>,
        \<lparr>node_key = KEY_HEAD, node_size = 0, node_data = []\<rparr>,
        \<lparr>node_key = KEY_rtag, node_size = 4, node_data = [7, 0, 0, 0]\<rparr>,
        \<lparr>node_key = KEY_END, node_size = 0, node_data = []\<rparr>]) =
   (1, root0 # [\<lparr>node_key = KEY_AQFT, node_size = 0, node_data = []\<rparr>,
        \<lparr>node_key = KEY_HEAD, node_size = 0, node_data = []\<rparr>,
        \<lparr>node_key = KEY_rtag, node_size = 4, node_data = [7, 0, 0, 0]\<rparr>,
        \<lparr>node_key = KEY_END, node_size = 0, node_data = []\<rparr>])"
  by code_simp

lemma rs_write_no_body:
  "rs_write True [\<lparr>node_key = KEY_AQFT, node_size = 0, node_data = []\<rparr>,
        \<lparr>node_key = KEY_HEAD, node_size = 0, node_data = []\<rparr>,
        \<lparr>node_key = KEY_rtag, node_size = 4, node_data = [7, 0, 0, 0]\<rparr>,
        \<lparr>node_key = KEY_END, node_size = 0, node_data = []\<rparr>] =
   Inr (0, [0x41, 0x51, 0x46, 0x54, 0, 0, 0, 0,  0x48, 0x45, 0x41, 0x44, 0, 0, 0, 0,
            0x72, 0x74, 0x61, 0x67, 0, 0, 0, 4,  0, 0, 0, 7,
            0x45, 0x4e, 0x44, 0x20, 0, 0, 0, 0], [])"
  by code_simp

text \<open>
  C4 (the code does not do what the claim says). The text has no body sentinel. The
  reconciler finds a body size of 0 and returns 1 without writing a size, but \<open>rsgen\<close>
  calls it as a statement and goes on to \<open>rs_write\<close>: the run returns 0 and the 36 bytes
  of the four blocks are written, the root and the head with the size 0.
\<close>

theorem rsgen_writes_without_body_sentinel:
  "fst (fixup_sizes (root0 # [\<lparr>node_key = KEY_AQFT, node_size = 0, node_data = []\<rparr>,
        \<lparr>node_key = KEY_HEAD, node_size = 0, node_data = []\<rparr>,
        \<lparr>node_key = KEY_rtag, node_size = 4, node_data = [7, 0, 0, 0]\<rparr>,
        \<lparr>node_key = KEY_END, node_size = 0, node_data = []\<rparr>])) = 1
   \<and> rsgen libc_zero True (replicate SIZE_LINE NUL) text_no_body =
       Inr (0, [0x41, 0x51, 0x46, 0x54, 0, 0, 0, 0,  0x48, 0x45, 0x41, 0x44, 0, 0, 0, 0,
                0x72, 0x74, 0x61, 0x67, 0, 0, 0, 4,  0, 0, 0, 7,
                0x45, 0x4e, 0x44, 0x20, 0, 0, 0, 0], [])"
proof -
  have "rsgen libc_zero True (replicate SIZE_LINE NUL) text_no_body =
       Inr (0, [0x41, 0x51, 0x46, 0x54, 0, 0, 0, 0,  0x48, 0x45, 0x41, 0x44, 0, 0, 0, 0,
                0x72, 0x74, 0x61, 0x67, 0, 0, 0, 4,  0, 0, 0, 7,
                0x45, 0x4e, 0x44, 0x20, 0, 0, 0, 0], [])"
    unfolding rsgen_def rsgen_loop_no_body prod.case fixup_no_body list.sel rs_write_no_body
    by simp
  then show ?thesis unfolding fixup_no_body by simp
qed


section \<open>Numbers: bytes and words, printing and scanning\<close>

subsection \<open>The bytes of a word\<close>

lemma unat_ucast8: "unat (ucast (x :: 'a::len word) :: 8 word) = unat x mod 256"
  by (simp add: unsigned_ucast_eq take_bit_eq_mod)

lemma unat_drop: "unat (drop_bit k (w :: 'a::len word)) = unat w div 2 ^ k"
  by (subst unat_drop_bit_eq) (simp only: drop_bit_eq_div)

lemma step: "(u::nat) div 256 * 256 + u mod 256 = u"
  by simp

lemma be_nat_bytes32: "be_nat (be_bytes32 w) = unat w"
proof -
  define u where "u = unat w"
  have b: "u < 4294967296" using unsigned_less [of w, where 'a = nat] by (simp add: u_def)
  have d1: "u div 65536 = u div 256 div 256" and d2: "u div 16777216 = u div 256 div 256 div 256"
    by (simp_all add: div_mult2_eq [symmetric])
  have "u div 16777216 < 256" using b by simp
  then have m: "u div 256 div 256 div 256 mod 256 = u div 256 div 256 div 256" using d2 by simp
  have "be_nat (be_bytes32 w) = ((u div 256 div 256 div 256 mod 256 * 256 + u div 256 div 256 mod 256) * 256
      + u div 256 mod 256) * 256 + u mod 256"
    by (simp add: be_nat_def be_bytes32_def unat_ucast8 unat_drop u_def [symmetric] d1 d2)
  also have "\<dots> = u" unfolding m by (simp only: step)
  finally show ?thesis by (simp add: u_def)
qed

lemma be_nat_snoc: "be_nat (bs @ [b]) = be_nat bs * 256 + unat b"
  by (simp add: be_nat_def)

lemma horner_be_nat: "horner_sum uint 256 (rev bs) = int (be_nat bs)"
  by (induction bs rule: rev_induct) (simp_all add: be_nat_snoc be_nat_def)

lemma word_rcat_be_nat: "(word_rcat (bs :: byte list) :: 'a::len word) = of_nat (be_nat bs)"
  by (simp add: word_rcat_def horner_be_nat)

lemma word_rcat_bytes32: "word_rcat (be_bytes32 w) = w"
  by (simp add: word_rcat_be_nat be_nat_bytes32)

lemma host_u32_host_bytes32 [simp]: "host_u32 le (host_bytes32 le w) = w"
  by (simp add: host_u32_def host_bytes32_def word_rcat_bytes32)

lemma length_host_bytes32 [simp]: "length (host_bytes32 le w) = 4"
  by (simp add: host_bytes32_def be_bytes32_def)

lemma ucast_sub_offset: "(ucast ((ucast (T :: 32 word) :: 64 word) - 2082844800) :: 32 word) = T - 2082844800"
proof -
  have "(ucast T :: 64 word) - 2082844800 = word_of_int (uint T - 2082844800)" by simp
  moreover have "(ucast (word_of_int (uint T - 2082844800) :: 64 word) :: 32 word) = word_of_int (uint T - 2082844800)"
    by (rule ucast_down_wi) (simp add: is_down)
  ultimately show ?thesis by simp
qed

lemma ucast_add_offset: "(ucast ((ucast (T :: 32 word) :: 64 word) + 2082844800) :: 32 word) = T + 2082844800"
proof -
  have "(ucast T :: 64 word) + 2082844800 = word_of_int (uint T + 2082844800)" by simp
  moreover have "(ucast (word_of_int (uint T + 2082844800) :: 64 word) :: 32 word) = word_of_int (uint T + 2082844800)"
    by (rule ucast_down_wi) (simp add: is_down)
  ultimately show ?thesis by simp
qed

subsection \<open>Decimal output read back\<close>

lemma digit_char_10:
  assumes "d < 10"
  shows "is_digit 10 (digit_char d)" and "digit_val (digit_char d) = d"
    and "\<not> isspace (digit_char d)" and "digit_char d \<noteq> CHR ''-''" and "digit_char d \<noteq> CHR ''+''"
    and "digit_char d \<noteq> NL" and "digit_char d \<noteq> NUL"
proof -
  have "d = 0 \<or> d = 1 \<or> d = 2 \<or> d = 3 \<or> d = 4 \<or> d = 5 \<or> d = 6 \<or> d = 7 \<or> d = 8 \<or> d = 9"
    using assms by arith
  then show "is_digit 10 (digit_char d)" and "digit_val (digit_char d) = d"
    and "\<not> isspace (digit_char d)" and "digit_char d \<noteq> CHR ''-''" and "digit_char d \<noteq> CHR ''+''"
    and "digit_char d \<noteq> NL" and "digit_char d \<noteq> NUL"
    by (auto simp: digit_char_def is_digit_def digit_val_def isspace_def NL_def NUL_def)
qed

lemma digits_of_10_props:
  "digits_of 10 n \<noteq> [] \<and> (\<forall>c\<in>set (digits_of 10 n). is_digit 10 c \<and> c \<noteq> NL \<and> c \<noteq> NUL)
   \<and> number_val 10 (digits_of 10 n) = n
   \<and> \<not> isspace (hd (digits_of 10 n)) \<and> hd (digits_of 10 n) \<noteq> CHR ''-''
   \<and> hd (digits_of 10 n) \<noteq> CHR ''+''"
proof (induction n rule: less_induct)
  case (less n)
  show ?case
  proof (cases "n < 10")
    case True
    then have "digits_of 10 n = [digit_char n]" by (simp add: digits_of.simps)
    then show ?thesis using digit_char_10 [OF True] by (simp add: number_val_def)
  next
    case False
    then have d: "digits_of 10 n = digits_of 10 (n div 10) @ [digit_char (n mod 10)]"
      by (subst digits_of.simps) simp
    have m: "n mod 10 < 10" by simp
    have "n div 10 < n" using False by simp
    then have ih: "digits_of 10 (n div 10) \<noteq> []"
      "\<forall>c\<in>set (digits_of 10 (n div 10)). is_digit 10 c \<and> c \<noteq> NL \<and> c \<noteq> NUL"
      "number_val 10 (digits_of 10 (n div 10)) = n div 10"
      "\<not> isspace (hd (digits_of 10 (n div 10)))" "hd (digits_of 10 (n div 10)) \<noteq> CHR ''-''"
      "hd (digits_of 10 (n div 10)) \<noteq> CHR ''+''"
      using less.IH by blast+
    show ?thesis
      unfolding d using ih digit_char_10 [OF m]
      by (simp add: number_val_def)
  qed
qed

lemma length_digits_of_10: "n < 10 ^ k \<Longrightarrow> 0 < k \<Longrightarrow> length (digits_of 10 n) \<le> k"
proof (induction k arbitrary: n)
  case 0
  then show ?case by simp
next
  case (Suc k)
  show ?case
  proof (cases "n < 10")
    case True
    then show ?thesis by (simp add: digits_of.simps)
  next
    case False
    then have d: "digits_of 10 n = digits_of 10 (n div 10) @ [digit_char (n mod 10)]"
      by (subst digits_of.simps) simp
    have "n div 10 < 10 ^ k" using Suc.prems by (simp add: less_mult_imp_div_less mult.commute)
    moreover have "0 < k" using False Suc.prems by (cases k) auto
    ultimately show ?thesis using Suc.IH d by simp
  qed
qed

text \<open>Scanning an unsigned decimal number that was printed, followed by a character that
  is no digit.\<close>

lemma scan_number_digits:
  assumes "\<not> is_digit 10 c"
  shows "scan_number 10 (digits_of 10 n @ c # rest) = Scan_ok (False, digits_of 10 n) (c # rest)"
proof -
  obtain x xs where ds: "digits_of 10 n = x # xs"
    using digits_of_10_props [of n] by (cases "digits_of 10 n") auto
  have p: "\<forall>c\<in>set (x # xs). is_digit 10 c" "\<not> isspace x" "x \<noteq> CHR ''-''" "x \<noteq> CHR ''+''"
    using digits_of_10_props [of n] ds by auto
  have tw: "takeWhile (is_digit 10) ((x # xs) @ c # rest) = x # xs"
    using p(1) assms by (simp add: takeWhile_tail)
  have dw: "dropWhile (is_digit 10) ((x # xs) @ c # rest) = c # rest"
    using p(1) assms by simp
  have s3: "(case (x # xs) @ c # rest of
               z # y # r \<Rightarrow> if z = CHR ''0'' \<and> (10::nat) = 16 \<and> (y = CHR ''x'' \<or> y = CHR ''X'')
                            then CHR ''0'' # r else (x # xs) @ c # rest
             | _ \<Rightarrow> (x # xs) @ c # rest) = (x # xs) @ c # rest"
    by (cases xs) auto
  show ?thesis
    unfolding scan_number_def ds
    using p(2,3,4) tw dw s3
    by (simp add: Let_def)
qed

lemma scan_u_printf_lu:
  assumes "\<not> is_digit 10 c"
  shows "scan_u 10 (printf_lu t @ c # rest) = Scan_ok (ucast t) (c # rest)"
proof -
  have "unat t < 2 ^ 64" using unsigned_less [of t] by simp
  then have "strtoul_val 10 (False, digits_of 10 (unat t)) = t"
    using digits_of_10_props [of "unat t"] by (simp add: strtoul_val_def Let_def)
  then show ?thesis
    unfolding scan_u_def printf_lu_def scan_number_digits [OF assms] by simp
qed


section \<open>The timestamps of \<open>mcda\<close> and \<open>gps1\<close>\<close>

lemma fgets_chars_prefix:
  "NL \<notin> set p \<Longrightarrow> length p \<le> m \<Longrightarrow>
   fgets_chars m (p @ r) = (p @ fst (fgets_chars (m - length p) r), snd (fgets_chars (m - length p) r))"
proof (induction p arbitrary: m)
  case Nil
  then show ?case by simp
next
  case (Cons a p)
  then have "NL \<notin> set p" "length p \<le> m - 1" "a \<noteq> NL" "m \<noteq> 0" by auto
  then show ?case using Cons.IH [of "m - 1"] by (simp add: split_def)
qed

lemma chomp_prefix: "NL \<notin> set p \<Longrightarrow> NUL \<notin> set p \<Longrightarrow> chomp (p @ q) = p @ chomp q"
  by (induction p) (auto simp: chomp_def)

lemma fgets_prefix_space:
  assumes "NL \<notin> set p" "NUL \<notin> set p" "length p < SIZE_LINE - 1"
  shows "\<exists>cs fd' x. fgets SIZE_LINE (p @ CHR 0x20 # r) = Some (cs, fd') \<and> chomp cs = p @ CHR 0x20 # x"
proof -
  have k: "SIZE_LINE - 1 - length p \<noteq> 0" using assms(3) by simp
  have "fgets SIZE_LINE (p @ CHR 0x20 # r)
        = Some (p @ fst (fgets_chars (SIZE_LINE - 1 - length p) (CHR 0x20 # r)),
                snd (fgets_chars (SIZE_LINE - 1 - length p) (CHR 0x20 # r)))"
    using assms by (simp add: fgets_def fgets_chars_prefix)
  moreover have "chomp (p @ fst (fgets_chars (SIZE_LINE - 1 - length p) (CHR 0x20 # r)))
        = p @ CHR 0x20 # chomp (fst (fgets_chars (SIZE_LINE - 1 - length p - 1) r))"
    using assms(1,2) k by (simp add: chomp_prefix split_def NL_def) (simp add: chomp_def NL_def NUL_def)
  ultimately show ?thesis by blast
qed

lemma match_literal_prefix: "match_literal lab (lab @ s) = Scan_ok () s"
  by (induction lab) auto

lemma length_printf_lu: "length (printf_lu t) \<le> 20"
proof -
  have "unat t < 2 ^ 64" using unsigned_less [of t] by simp
  then have "unat t < 10 ^ 20" by simp
  then show ?thesis unfolding printf_lu_def by (rule length_digits_of_10) simp
qed

lemma read_parameter_printf_lu:
  assumes "NL \<notin> set lab" "NUL \<notin> set lab" "length lab < 200"
  shows "read_parameter L le (lab @ printf_lu t @ CHR 0x20 # r) (lab, Conv_u)
         = (0, host_bytes32 le (ucast t), [])"
proof -
  let ?p = "lab @ printf_lu t"
  have "NL \<notin> set ?p" "NUL \<notin> set ?p"
    using assms(1,2) digits_of_10_props [of "unat t"] by (auto simp: printf_lu_def)
  moreover have "length ?p < SIZE_LINE - 1"
    using assms(3) length_printf_lu [of t] by (simp add: SIZE_LINE_def)
  ultimately obtain cs fd' x where
    f: "fgets SIZE_LINE (?p @ CHR 0x20 # r) = Some (cs, fd')" and c: "chomp cs = ?p @ CHR 0x20 # x"
    using fgets_prefix_space [of ?p r] by blast
  have s: "sscanf L le (lab @ printf_lu t @ CHR 0x20 # x) (lab, Conv_u) = (1, host_bytes32 le (ucast t))"
    by (simp add: sscanf_def match_literal_prefix convert_def scan_u_printf_lu is_digit_def)
  show ?thesis
    using f c s by (subst read_parameter.simps) simp
qed

lemma read_parameter_blank:
  "read_parameter L le (NL # r) fmt = (1, [], [Cannot_find_parameter (fst fmt)])"
  by (subst read_parameter.simps) (simp add: fgets_def chomp_def SIZE_LINE_def)

lemma ucast_32_64_eq_0: "(ucast (T :: 32 word) :: 64 word) = 0 \<longleftrightarrow> T = 0"
  by (simp add: word_unat_eq_iff)

lemma timestamp_line_nonzero:
  "T \<noteq> 0 \<Longrightarrow> timestamp_line L lab T
     = lab @ printf_lu (ucast T - 2082844800) @ CHR 0x20 # (''(NB: seconds since 1970) (''
           @ ctime24 L (ucast T - 2082844800) @ '')'' @ [NL])"
  by (simp add: timestamp_line_def Let_def ucast_32_64_eq_0)

lemma field4 [simp]: "field 4 (host_bytes32 le w) = host_bytes32 le w"
  by (simp add: field_def)

lemma read_parameter_timestamp_line:
  assumes "T \<noteq> 0" and "NL \<notin> set lab" "NUL \<notin> set lab" "length lab < 200"
  shows "read_parameter L le (timestamp_line L lab T @ rest) (lab, Conv_u)
         = (0, host_bytes32 le (T - 2082844800), [])"
proof -
  define r where "r = ''(NB: seconds since 1970) ('' @ ctime24 L (ucast T - 2082844800) @ '')'' @ [NL] @ rest"
  have eq: "timestamp_line L lab T @ rest = lab @ printf_lu (ucast T - 2082844800) @ CHR 0x20 # r"
    unfolding timestamp_line_nonzero [OF assms(1)] r_def by simp
  have "read_parameter L le (lab @ printf_lu (ucast T - 2082844800) @ CHR 0x20 # r) (lab, Conv_u)
        = (0, host_bytes32 le (ucast (ucast T - 2082844800 :: 64 word)), [])"
    using assms(2,3,4) by (rule read_parameter_printf_lu)
  then show ?thesis
    unfolding eq ucast_sub_offset .
qed

text \<open>
  The timestamp of \<open>mcda\<close>, when it is not zero: \<open>make_node_mcda\<close> reads the line that
  \<open>dump_block_mcda\<close> writes for \<open>T\<close> back into the bytes of \<open>T\<close>, for every \<open>ctime\<close> text
  and every text behind the line. A value before 1970 is printed by \<open>%lu\<close> as a number
  near \<open>2^64\<close>; \<open>%u\<close> keeps its low 32 bits and the addition wraps back to \<open>T\<close>.
\<close>

lemma make_node_mcda_timestamp:
  assumes "T \<noteq> 0"
  shows "make_node_mcda L le config (timestamp_line L ''filetimestamp:'' T @ rest)
         = (0, \<lparr>node_key = KEY_mcda, node_size = 4, node_data = host_bytes32 le T\<rparr>, config,
            timestamp_line L ''filetimestamp:'' T @ rest, [])"
proof -
  have "read_parameter L le (timestamp_line L ''filetimestamp:'' T @ rest) (''filetimestamp:'', Conv_u)
        = (0, host_bytes32 le (T - 2082844800), [])"
    using assms by (rule read_parameter_timestamp_line) (simp_all add: NL_def NUL_def)
  then show ?thesis
    by (simp add: make_node_mcda_def epoch_offset_def)
qed

lemma make_node_mcda_zero:
  "make_node_mcda L le config (timestamp_line L ''filetimestamp:'' 0 @ NL # rest)
         = (1, \<lparr>node_key = KEY_mcda, node_size = 4, node_data = [0, 0, 0, 0]\<rparr>, config,
            NL # rest, [Cannot_find_parameter ''filetimestamp:''])"
  by (simp add: make_node_mcda_def timestamp_line_def read_parameter_blank eval_nat_numeral)

lemma read_parameter_line:
  assumes "textline l"
  shows "read_parameter L le (l @ NL # s) fmt =
     (if l = [] then (1, [], [Cannot_find_parameter (fst fmt)])
      else (case sscanf L le l fmt of
              (count, stored) \<Rightarrow>
                if count \<noteq> 0 then (0, stored, []) else read_parameter L le s fmt))"
  using chomp_textline [OF assms]
  by (subst read_parameter.simps) (simp add: fgets_textline [OF assms])

lemma sscanf_label_lf:
  "scan_lf L a \<noteq> Scan_fail \<Longrightarrow> fst (sscanf L le (lab @ a) (lab, Conv_lf)) \<noteq> 0"
  by (cases "scan_lf L a") (simp_all add: sscanf_def match_literal_prefix convert_def)

lemma length_field [simp]: "length (field w stored) = w"
  by (simp add: field_def)

text \<open>
  The timestamp of \<open>gps1\<close>, when it is not zero, under the hypotheses on the C library
  that the three lines of the doubles are lines and that \<open>%lf\<close> does not reject what
  \<open>%.6lf\<close> has printed: the last four bytes of the new block are the bytes of \<open>T\<close>.
\<close>

lemma make_node_gps1_timestamp:
  assumes "T \<noteq> 0"
    and "textline (''lat:'' @ a1)" "textline (''lon:'' @ a2)" "textline (''alt:'' @ a3)"
    and "scan_lf L a1 \<noteq> Scan_fail" "scan_lf L a2 \<noteq> Scan_fail" "scan_lf L a3 \<noteq> Scan_fail"
  shows "\<exists>dat. length dat = 24 \<and>
     make_node_gps1 L le config
       ((''lat:'' @ a1) @ NL # (''lon:'' @ a2) @ NL # (''alt:'' @ a3) @ NL #
        timestamp_line L ''gpstimestamp:'' T @ rest)
     = (0, \<lparr>node_key = KEY_gps1, node_size = 28, node_data = dat @ host_bytes32 le T\<rparr>, config,
        (''lat:'' @ a1) @ NL # (''lon:'' @ a2) @ NL # (''alt:'' @ a3) @ NL #
        timestamp_line L ''gpstimestamp:'' T @ rest, [])"
proof -
  define l1 l2 l3 where "l1 = ''lat:'' @ a1" and "l2 = ''lon:'' @ a2" and "l3 = ''alt:'' @ a3"
  define fd where "fd = l1 @ NL # l2 @ NL # l3 @ NL # timestamp_line L ''gpstimestamp:'' T @ rest"
  have t: "textline l1" "textline l2" "textline l3" and ne: "l1 \<noteq> []" "l2 \<noteq> []" "l3 \<noteq> []"
    using assms(2,3,4) by (simp_all add: l1_def l2_def l3_def)
  have other: "sscanf L le l1 (''lon:'', Conv_lf) = (0, [])"
    "sscanf L le l1 (''alt:'', Conv_lf) = (0, [])" "sscanf L le l2 (''alt:'', Conv_lf) = (0, [])"
    "sscanf L le l1 (''gpstimestamp:'', Conv_u) = (0, [])"
    "sscanf L le l2 (''gpstimestamp:'', Conv_u) = (0, [])"
    "sscanf L le l3 (''gpstimestamp:'', Conv_u) = (0, [])"
    by (simp_all add: sscanf_def l1_def l2_def l3_def)
  have own: "fst (sscanf L le l1 (''lat:'', Conv_lf)) \<noteq> 0"
    "fst (sscanf L le l2 (''lon:'', Conv_lf)) \<noteq> 0" "fst (sscanf L le l3 (''alt:'', Conv_lf)) \<noteq> 0"
    unfolding l1_def l2_def l3_def using assms(5,6,7) by (simp_all only: sscanf_label_lf not_False_eq_True)
  have r1: "read_parameter L le fd (''lat:'', Conv_lf) = (0, snd (sscanf L le l1 (''lat:'', Conv_lf)), [])"
    unfolding fd_def using own(1) ne
    by (simp add: read_parameter_line [OF t(1)] split_def)
  have r2: "read_parameter L le fd (''lon:'', Conv_lf) = (0, snd (sscanf L le l2 (''lon:'', Conv_lf)), [])"
    unfolding fd_def using own(2) ne
    by (simp add: read_parameter_line [OF t(1)] read_parameter_line [OF t(2)] other split_def)
  have r3: "read_parameter L le fd (''alt:'', Conv_lf) = (0, snd (sscanf L le l3 (''alt:'', Conv_lf)), [])"
    unfolding fd_def using own(3) ne
    by (simp add: read_parameter_line [OF t(1)] read_parameter_line [OF t(2)]
        read_parameter_line [OF t(3)] other split_def)
  have "read_parameter L le (timestamp_line L ''gpstimestamp:'' T @ rest) (''gpstimestamp:'', Conv_u)
        = (0, host_bytes32 le (T - 2082844800), [])"
    using assms(1) by (rule read_parameter_timestamp_line) (simp_all add: NL_def NUL_def)
  then have r4: "read_parameter L le fd (''gpstimestamp:'', Conv_u)
        = (0, host_bytes32 le (T - 2082844800), [])"
    unfolding fd_def using ne
    by (simp add: read_parameter_line [OF t(1)] read_parameter_line [OF t(2)]
        read_parameter_line [OF t(3)] other)
  define dat where "dat = field 8 (snd (sscanf L le l1 (''lat:'', Conv_lf)))
      @ field 8 (snd (sscanf L le l2 (''lon:'', Conv_lf)))
      @ field 8 (snd (sscanf L le l3 (''alt:'', Conv_lf)))"
  have len: "length dat = 24" by (simp add: dat_def)
  have "read_fields L le fd gps1_formats = (0, dat @ host_bytes32 le (T - 2082844800), [])"
    by (simp add: gps1_formats_def r1 r2 r3 r4 dat_def)
  then have "make_node_gps1 L le config fd
     = (0, \<lparr>node_key = KEY_gps1, node_size = 28, node_data = dat @ host_bytes32 le T\<rparr>, config, fd, [])"
    using len by (simp add: make_node_gps1_def epoch_offset_def)
  then show ?thesis
    using len unfolding fd_def l1_def l2_def l3_def by blast
qed

subsection \<open>A zero timestamp is written as no line and then not found\<close>

lemma strkey_mcda: "printf_s (strkey le KEY_mcda) = ''mcda''"
proof -
  have "printf_s (strkey True KEY_mcda) = ''mcda''" by code_simp
  moreover have "printf_s (strkey False KEY_mcda) = ''mcda''" by code_simp
  ultimately show ?thesis by (cases le) simp_all
qed

lemma dump_block_mcda_zero:
  "dump_block_mcda L le \<lparr>node_key = KEY_mcda, node_size = 4, node_data = host_bytes32 le 0\<rparr> config
   = Inr (0, ''mcda'' @ [NL] @ [NL], config, [])"
  by (simp add: dump_block_mcda_def dump_leaf_def sizeof_block_def u32_at_def timestamp_line_def
      strkey_mcda)

lemma dump_block_mcda_nonzero:
  "dump_block_mcda L le \<lparr>node_key = KEY_mcda, node_size = 4, node_data = host_bytes32 le T\<rparr> config
   = Inr (0, ''mcda'' @ [NL] @ timestamp_line L ''filetimestamp:'' T @ [NL], config, [])"
  by (simp add: dump_block_mcda_def dump_leaf_def sizeof_block_def u32_at_def strkey_mcda)

lemma rsdump_mcda_zero:
  "rsdump libc_zero True mcda_zero_file False = Inr (0, mcda_zero_text, [])"
  by code_simp

lemma make_node_mcda_blank:
  "make_node_mcda L le cfg (NL # rest) =
     (1, \<lparr>node_key = KEY_mcda, node_size = 4, node_data = [0, 0, 0, 0]\<rparr>, cfg, NL # rest,
      [Cannot_find_parameter ''filetimestamp:''])"
  by (simp add: make_node_mcda_def read_parameter_blank eval_nat_numeral)

lemma make_mcda_blank:
  "make_node F_mcda L le cfg (unlines ([] # ls)) =
     (1, \<lparr>node_key = KEY_mcda, node_size = 4, node_data = [0, 0, 0, 0]\<rparr>, cfg,
      unlines ([] # ls), [Cannot_find_parameter ''filetimestamp:''])"
  unfolding unlines_Cons [of "[]"] by (simp add: make_node_def make_node_mcda_blank)

lemma rsgen_loop_mcda_zero:
  "rsgen_loop libc_zero True (replicate SIZE_LINE NUL) 0 config0 [] [] mcda_zero_text =
   (1, [\<lparr>node_key = KEY_AQFT, node_size = 0, node_data = []\<rparr>,
        \<lparr>node_key = KEY_HEAD, node_size = 0, node_data = []\<rparr>,
        \<lparr>node_key = KEY_mcda, node_size = 4, node_data = [0, 0, 0, 0]\<rparr>], 5,
    [Cannot_find_parameter ''filetimestamp:'', Error_in_block KEY_mcda 5])"
  unfolding mcda_zero_text_def
  by (simp add: rsgen_loop_block rsgen_loop_skip key_of_line_known find_block_functions_known
      make_mcda_blank)

text \<open>
  C6 (the code does not do what the claim says, for the timestamp 0). \<open>dump_block_mcda\<close>
  writes the timestamp line only \<open>if( t != 0 )\<close>: the record of a block whose timestamp
  is 0 is the type-code line and the blank line. \<open>make_node_mcda\<close> requires the line:
  on that record \<open>read_parameter\<close> meets the blank line first and the function returns 1
  with \<open>Cannot find parameter\<close>. So the text that \<open>rsdump\<close> writes for the file
  \<open>mcda_zero_file\<close> is rejected by \<open>rsgen\<close>, which writes nothing. For every other
  timestamp the round trip gives the bytes of \<open>T\<close> (lemmas \<open>make_node_mcda_timestamp\<close> and
  \<open>make_node_gps1_timestamp\<close>).
\<close>

theorem zero_timestamp_is_not_read_back:
  "dump_block_mcda L le \<lparr>node_key = KEY_mcda, node_size = 4, node_data = host_bytes32 le 0\<rparr> config
     = Inr (0, ''mcda'' @ [NL] @ [NL], config, [])
   \<and> make_node_mcda L le config (NL # rest)
     = (1, \<lparr>node_key = KEY_mcda, node_size = 4, node_data = [0, 0, 0, 0]\<rparr>, config, NL # rest,
        [Cannot_find_parameter ''filetimestamp:''])
   \<and> rsdump libc_zero True mcda_zero_file False = Inr (0, mcda_zero_text, [])
   \<and> rsgen libc_zero True (replicate SIZE_LINE NUL) mcda_zero_text
     = Inr (1, [], [Cannot_find_parameter ''filetimestamp:'', Error_in_block KEY_mcda 5])"
proof -
  have "make_node_mcda L le config (NL # rest)
     = (1, \<lparr>node_key = KEY_mcda, node_size = 4, node_data = [0, 0, 0, 0]\<rparr>, config, NL # rest,
        [Cannot_find_parameter ''filetimestamp:''])"
    by (rule make_node_mcda_blank)
  moreover have "rsgen libc_zero True (replicate SIZE_LINE NUL) mcda_zero_text
     = Inr (1, [], [Cannot_find_parameter ''filetimestamp:'', Error_in_block KEY_mcda 5])"
    using rsgen_loop_mcda_zero by (rule rsgen_loop_failed)
  ultimately show ?thesis
    using dump_block_mcda_zero [of L le config] rsdump_mcda_zero by simp
qed



end
